theory Spec2Isabelle
  imports Complex_Main
begin

section \<open>Errors, time and the observable environment\<close>

text \<open>
  Exceptions of \<^verbatim>\<open>errors.py\<close> as values. A point in time (a Python \<^verbatim>\<open>datetime\<close>) is a
  rational number of seconds since the epoch, a duration (\<^verbatim>\<open>timedelta.total_seconds()\<close>)
  a rational number of seconds.

  Argument order of the constructors follows the keyword order of the Python classes:
  \<^item> \<open>TransportError status_code body_snippet\<close>
  \<^item> \<open>RateLimitError retry_after attempts header_value wait_seconds max_wait_seconds\<close>
  \<^item> \<open>LocalRateLimitError estimated_cost wait_seconds max_wait_seconds\<close>
  \<^item> \<open>SerializationError message\<close>
  \<^item> \<open>GraphQLOperationError errors\<close> (the partial data it also carries is not modelled)
  \<^item> \<open>ValueError\<close> and \<open>OverflowError\<close> are the Python built-ins.
\<close>

datatype error =
    TransportError int string
  | RateLimitError "rat option" nat "string option" "rat option" "int option"
  | LocalRateLimitError rat rat rat
  | SerializationError string
  | GraphQLOperationError "string list"
  | ValueError
  | OverflowError

text \<open>
  What a run does to the outside world is recorded as a trace of events, in order:
  a call of \<^verbatim>\<open>TokenBucket.consume(cost, max_wait)\<close>, the building of the request headers,
  one HTTP exchange, one call of the injected sleeper, and one record handed to the
  consumer of a generator.
\<close>

datatype ('q, 'y) event =
    Throttled rat rat
  | HeadersBuilt
  | Sent 'q
  | Slept rat
  | Yielded 'y

record token_bucket =
  capacity :: rat
  tokens :: rat
  last_refill :: rat
  refill_rate_per_sec :: rat

text \<open>
  The mutable state of one client: how often the injected time provider has been read,
  the trace so far, and the client's token bucket (\<open>None\<close> when local throttling is off).
\<close>

record ('q, 'y) env =
  ticks :: nat
  trace :: "('q, 'y) event list"
  bucket :: "token_bucket option"

text \<open>
  One HTTP response: the status code, the value of the \<^verbatim>\<open>Retry-After\<close> header
  (\<^verbatim>\<open>response.headers.get("Retry-After")\<close>), the body text, and what \<^verbatim>\<open>response.json()\<close>
  gives (\<open>Inl\<close> is the message of the \<^verbatim>\<open>JSONDecodeError\<close>).
\<close>

record 'b response =
  status_code :: int
  retry_after_header :: "string option"
  text_body :: string
  json :: "string + 'b"

text \<open>\<open>RequestError msg\<close> is an \<^verbatim>\<open>httpx.RequestError\<close> whose \<^verbatim>\<open>str()\<close> is \<open>msg\<close>.\<close>

datatype 'b http_outcome = RequestError string | Response "'b response"

text \<open>
  The world outside the client, as the client sees it: the \<open>k\<close>-th reading of the injected
  time provider, and the outcome of the \<open>k\<close>-th HTTP exchange (which may depend on the
  request). The client is deterministic, so every behaviour of a clock and of a server is
  one such pair of functions.
\<close>

record ('q, 'b) world =
  clock :: "nat \<Rightarrow> rat"
  transport :: "nat \<Rightarrow> 'q \<Rightarrow> 'b http_outcome"

fun requests :: "('q, 'y) event list \<Rightarrow> 'q list" where
  "requests [] = []"
| "requests (Sent q # es) = q # requests es"
| "requests (_ # es) = requests es"

fun sleeps :: "('q, 'y) event list \<Rightarrow> rat list" where
  "sleeps [] = []"
| "sleeps (Slept s # es) = s # sleeps es"
| "sleeps (_ # es) = sleeps es"

fun yielded :: "('q, 'y) event list \<Rightarrow> 'y list" where
  "yielded [] = []"
| "yielded (Yielded y # es) = y # yielded es"
| "yielded (_ # es) = yielded es"

fun throttled :: "('q, 'y) event list \<Rightarrow> (rat \<times> rat) list" where
  "throttled [] = []"
| "throttled (Throttled cost max_wait # es) = (cost, max_wait) # throttled es"
| "throttled (_ # es) = throttled es"

definition emit :: "('q, 'y) event \<Rightarrow> ('q, 'y) env \<Rightarrow> ('q, 'y) env" where
  "emit ev e = e\<lparr>trace := trace e @ [ev]\<rparr>"

text \<open>\<^verbatim>\<open>self._now()\<close>: one reading of the injected time provider.\<close>

definition now :: "('q, 'b) world \<Rightarrow> ('q, 'y) env \<Rightarrow> rat \<times> ('q, 'y) env" where
  "now w e = (clock w (ticks e), e\<lparr>ticks := Suc (ticks e)\<rparr>)"

text \<open>\<^verbatim>\<open>self._sleeper(seconds)\<close>.\<close>

definition sleeper :: "rat \<Rightarrow> ('q, 'y) env \<Rightarrow> ('q, 'y) env" where
  "sleeper s e = emit (Slept s) e"

text \<open>\<^verbatim>\<open>self._client.post(...)\<close> and \<^verbatim>\<open>self._client.get(...)\<close>: one HTTP exchange.\<close>

definition exchange :: "('q, 'b) world \<Rightarrow> 'q \<Rightarrow> ('q, 'y) env \<Rightarrow> 'b http_outcome \<times> ('q, 'y) env" where
  "exchange w q e = (transport w (length (requests (trace e))) q, emit (Sent q) e)"

section \<open>Strings\<close>

text \<open>
  Python's \<^verbatim>\<open>str.strip()\<close>, \<^verbatim>\<open>str.isdigit()\<close> and \<^verbatim>\<open>int()\<close> on strings whose characters are
  code points below 256. Below 256 \<^verbatim>\<open>isdigit\<close> holds of the ASCII digits and of the
  superscripts 1, 2 and 3 (185, 178, 179), which \<^verbatim>\<open>int()\<close> rejects with \<^verbatim>\<open>ValueError\<close>
  (\<open>None\<close> here).
\<close>

definition isspace :: "char \<Rightarrow> bool" where
  "isspace c = (let n = (of_char c :: nat) in (9 \<le> n \<and> n \<le> 13) \<or> (28 \<le> n \<and> n \<le> 32) \<or> n = 133 \<or> n = 160)"

definition strip :: "string \<Rightarrow> string" where
  "strip s = rev (dropWhile isspace (rev (dropWhile isspace s)))"

definition decimal_char :: "char \<Rightarrow> bool" where
  "decimal_char c = (let n = (of_char c :: nat) in 48 \<le> n \<and> n \<le> 57)"

definition digit_char :: "char \<Rightarrow> bool" where
  "digit_char c = (let n = (of_char c :: nat) in decimal_char c \<or> n = 178 \<or> n = 179 \<or> n = 185)"

definition isdigit :: "string \<Rightarrow> bool" where
  "isdigit s = (s \<noteq> [] \<and> list_all digit_char s)"

definition int_of_string :: "string \<Rightarrow> int option" where
  "int_of_string s =
     (if s \<noteq> [] \<and> list_all decimal_char s
      then Some (foldl (\<lambda>acc c. 10 * acc + (int (of_char c) - 48)) 0 s)
      else None)"

text \<open>
  \<^verbatim>\<open>int()\<close> as the interpreter runs it: a string of more than 4300 digits (the default of
  \<^verbatim>\<open>sys.set_int_max_str_digits\<close>, leading zeros counted) is rejected with \<^verbatim>\<open>ValueError\<close> too.
\<close>

definition int_str :: "string \<Rightarrow> int option" where
  "int_str s = (if length s > 4300 then None else int_of_string s)"

section \<open>The 429 decision shared by both clients\<close>

text \<open>
  What one pass through the body of the \<^verbatim>\<open>while True\<close> loop of an executor ends with:
  an exception, a returned value, or \<^verbatim>\<open>continue\<close>.
\<close>

datatype 'a outcome = Raise error | Return 'a | Continue

text \<open>
  \<^verbatim>\<open>client.py\<close> lines 204-242 and \<^verbatim>\<open>jira_rest_client.py\<close> lines 141-178 are the same
  statements; they are modelled once. \<open>max_retries\<close> and \<open>max_wait\<close> are
  \<^verbatim>\<open>self.max_retries_429\<close> and \<^verbatim>\<open>self.max_wait_seconds\<close>.
\<close>

definition rate_limited ::
  "nat \<Rightarrow> int \<Rightarrow> ('q, 'b) world \<Rightarrow> nat \<Rightarrow> string option \<Rightarrow> rat \<Rightarrow> ('q, 'y) env
     \<Rightarrow> 'a outcome \<times> ('q, 'y) env" where
  "rate_limited max_retries max_wait w retries retry_header retry_at e =
     (let attempt_number = retries + 1;
          (t, e1) = now w e;
          computed_wait = retry_at - t;
          wait_seconds = (if computed_wait \<le> 0 then 0 else computed_wait);
          retry_allowed = (retries < max_retries);
          over_cap = (computed_wait > of_int max_wait)
      in if over_cap then
           (Raise (RateLimitError (Some retry_at) attempt_number retry_header
                     (Some computed_wait) (Some max_wait)), e1)
         else if \<not> retry_allowed then
           (Raise (RateLimitError (Some retry_at) attempt_number retry_header
                     (Some computed_wait) None), e1)
         else (Continue, if wait_seconds > 0 then sleeper wait_seconds e1 else e1))"

text \<open>
  The \<^verbatim>\<open>try ... except ValueError\<close> around the parsing of the header, in both clients
  (\<^verbatim>\<open>client.py\<close> lines 178-202, \<^verbatim>\<open>jira_rest_client.py\<close> lines 115-139): the parser's
  \<^verbatim>\<open>ValueError\<close> becomes a \<^verbatim>\<open>RateLimitError\<close>, any other exception of the parser leaves the
  executor as it is, a parsed time goes on to the decision above.
\<close>

definition on_429 ::
  "nat \<Rightarrow> int \<Rightarrow> ('q, 'b) world \<Rightarrow> nat \<Rightarrow> string option
     \<Rightarrow> (error + rat \<times> string) \<times> ('q, 'y) env \<Rightarrow> 'a outcome \<times> ('q, 'y) env" where
  "on_429 max_retries max_wait w retries retry_header parsed =
     (case parsed of
        (Inl ValueError, e) \<Rightarrow>
          (Raise (RateLimitError None (retries + 1) retry_header None None), e)
      | (Inl err, e) \<Rightarrow> (Raise err, e)
      | (Inr (retry_at, parser_used), e) \<Rightarrow>
          rate_limited max_retries max_wait w retries retry_header retry_at e)"

text \<open>
  The result of the parser \<^verbatim>\<open>parse_retry_after\<close> of the missing module \<^verbatim>\<open>retry\<close>, whose
  failure \<open>None\<close> is the \<^verbatim>\<open>ValueError\<close> that both handlers catch.
\<close>

definition raised :: "'a option \<Rightarrow> error + 'a" where
  "raised p = (case p of None \<Rightarrow> Inl ValueError | Some x \<Rightarrow> Inr x)"

section \<open>The token bucket\<close>

text \<open>
  Modelled from the spec: class \<^verbatim>\<open>TokenBucket\<close> of module \<^verbatim>\<open>throttle\<close>, which is not among
  the sources. Section 4.2: refill by the elapsed time, capped at the capacity; when the
  available tokens cover the cost, deduct and return 0; otherwise the wait is the deficit
  divided by the refill rate; a wait above the ceiling fails with \<^verbatim>\<open>LocalRateLimitError\<close>
  carrying cost, wait and ceiling, without sleeping and without deducting; otherwise
  sleep for the wait and pay the full cost, the level never going below 0.
\<close>

definition consume ::
  "('q, 'b) world \<Rightarrow> rat \<Rightarrow> rat \<Rightarrow> token_bucket \<Rightarrow> ('q, 'y) env
     \<Rightarrow> (error + rat) \<times> token_bucket \<times> ('q, 'y) env" where
  "consume w cost max_wait_secs b e =
     (let (t, e1) = now w e;
          elapsed = t - last_refill b;
          available = min (capacity b) (tokens b + elapsed * refill_rate_per_sec b);
          b1 = b\<lparr>tokens := available, last_refill := t\<rparr>
      in if available \<ge> cost then (Inr 0, b1\<lparr>tokens := available - cost\<rparr>, e1)
         else
           let deficit = cost - available;
               wait = deficit / refill_rate_per_sec b
           in if wait > max_wait_secs then
                (Inl (LocalRateLimitError cost wait max_wait_secs), b1, e1)
              else (Inr wait, b1\<lparr>tokens := max 0 (available - cost)\<rparr>, sleeper wait e1))"

section \<open>GraphQLClient\<close>

record client =
  max_retries_429 :: nat
  max_wait_seconds :: int
  strict :: bool

text \<open>
  The part of \<^verbatim>\<open>GraphQLClient.__init__\<close> that the executor depends on: both limits are
  clamped at 0, and the bucket of a throttling client has capacity 10000 and refills
  10000/60 tokens per second. A new bucket is taken to be full, its last refill at the
  time \<open>t0\<close> of construction.
\<close>

definition GraphQLClient :: "int \<Rightarrow> int \<Rightarrow> bool \<Rightarrow> client" where
  "GraphQLClient max_retries max_wait strict_mode =
     \<lparr>max_retries_429 = nat (max 0 max_retries),
      max_wait_seconds = max 0 max_wait,
      strict = strict_mode\<rparr>"

definition new_bucket :: "rat \<Rightarrow> token_bucket" where
  "new_bucket t0 =
     \<lparr>capacity = 10000, tokens = 10000, last_refill = t0, refill_rate_per_sec = 10000 / 60\<rparr>"

definition new_env :: "bool \<Rightarrow> rat \<Rightarrow> ('q, 'y) env" where
  "new_env enable_local_throttling t0 =
     \<lparr>ticks = 0, trace = [], bucket = (if enable_local_throttling then Some (new_bucket t0) else None)\<rparr>"

text \<open>\<^verbatim>\<open>GraphQLClient._consume_local_budget\<close>.\<close>

definition consume_local_budget ::
  "client \<Rightarrow> ('q, 'b) world \<Rightarrow> int \<Rightarrow> ('q, 'y) env \<Rightarrow> (error + unit) \<times> ('q, 'y) env" where
  "consume_local_budget c w estimated_cost e =
     (case bucket e of
        None \<Rightarrow> (Inr (), e)
      | Some b \<Rightarrow>
          (case consume w (of_int estimated_cost) (of_int (max_wait_seconds c)) b
                  (emit (Throttled (of_int estimated_cost) (of_int (max_wait_seconds c))) e) of
             (Inl err, b', e') \<Rightarrow> (Inl err, e'\<lparr>bucket := Some b'\<rparr>)
           | (Inr wait_time, b', e') \<Rightarrow> (Inr (), e'\<lparr>bucket := Some b'\<rparr>)))"

text \<open>
  The request body that \<^verbatim>\<open>execute\<close> posts, the decoded response body (\<open>NotDict\<close> is any
  JSON value that is not an object; otherwise its \<^verbatim>\<open>data\<close>, its parsed \<^verbatim>\<open>errors\<close> as the
  list of their messages, and its \<^verbatim>\<open>extensions\<close>), and \<^verbatim>\<open>GraphQLResult\<close>.
\<close>

record 'v payload =
  query :: string
  variables :: "'v option"
  operationName :: "string option"

datatype 'd gql_body = NotDict | Dict "'d option" "string list option" "'d option"

record 'd graphql_result =
  data :: "'d option"
  errors :: "string list option"
  extensions :: "'d option"

text \<open>
  One pass through the loop body of \<^verbatim>\<open>GraphQLClient.execute\<close> (lines 146-273).
  \<open>parse_retry_after\<close> is the function of module \<^verbatim>\<open>retry\<close>, which is not among the
  sources: it is a parameter, \<open>None\<close> being the \<^verbatim>\<open>ValueError\<close> it raises on a header it
  cannot parse; it is taken to raise nothing else.
  Logging has no effect on the result and is left out; the auth capability is taken
  not to fail.
\<close>

definition attempt ::
  "client \<Rightarrow> ('v payload, 'd gql_body) world \<Rightarrow> (string option \<Rightarrow> (rat \<times> string) option)
     \<Rightarrow> 'v payload \<Rightarrow> int \<Rightarrow> nat \<Rightarrow> ('v payload, 'y) env
     \<Rightarrow> 'd graphql_result outcome \<times> ('v payload, 'y) env" where
  "attempt c w parse_retry_after pl cost_value retries e =
     (case consume_local_budget c w cost_value e of
        (Inl err, e1) \<Rightarrow> (Raise err, e1)
      | (Inr _, e1) \<Rightarrow>
          (case exchange w pl (emit HeadersBuilt e1) of
             (RequestError msg, e2) \<Rightarrow> (Raise (TransportError 0 msg), e2)
           | (Response r, e2) \<Rightarrow>
               if status_code r = 429 then
                 on_429 (max_retries_429 c) (max_wait_seconds c) w retries (retry_after_header r)
                   (raised (parse_retry_after (retry_after_header r)), e2)
               else if status_code r \<ge> 500 then
                 (Raise (TransportError (status_code r) (take 200 (text_body r))), e2)
               else if status_code r \<ge> 400 then
                 (Raise (TransportError (status_code r) (take 200 (text_body r))), e2)
               else
                 (case json r of
                    Inl msg \<Rightarrow> (Raise (SerializationError (''Failed to parse JSON: '' @ msg)), e2)
                  | Inr NotDict \<Rightarrow>
                      (Return \<lparr>data = None, errors = None, extensions = None\<rparr>, e2)
                  | Inr (Dict d errs ext) \<Rightarrow>
                      if strict c \<and> errs \<noteq> None \<and> errs \<noteq> Some [] then
                        (Raise (GraphQLOperationError (the errs)), e2)
                      else (Return \<lparr>data = d, errors = errs, extensions = ext\<rparr>, e2))))"

lemma rate_limited_Continue:
  "rate_limited mr mw w retries h t e = (Continue, e') \<Longrightarrow> retries < mr"
  by (auto simp: rate_limited_def Let_def now_def split: if_splits prod.splits)

lemma on_429_Continue:
  "on_429 mr mw w retries h parsed = (Continue, e') \<Longrightarrow> retries < mr"
  by (auto simp: on_429_def split: prod.splits sum.splits error.splits dest: rate_limited_Continue)

lemma attempt_Continue:
  "attempt c w p pl cost retries e = (Continue, e') \<Longrightarrow> retries < max_retries_429 c"
  by (auto simp: attempt_def
      split: prod.splits sum.splits http_outcome.splits if_splits gql_body.splits
      dest: on_429_Continue)

text \<open>
  The \<^verbatim>\<open>while True\<close> loop of \<^verbatim>\<open>execute\<close>, \<open>retries\<close> being its counter. It ends because
  a pass continues only while \<open>retries\<close> is below \<^verbatim>\<open>max_retries_429\<close>.
\<close>

function execute_loop ::
  "client \<Rightarrow> ('v payload, 'd gql_body) world \<Rightarrow> (string option \<Rightarrow> (rat \<times> string) option)
     \<Rightarrow> 'v payload \<Rightarrow> int \<Rightarrow> nat \<Rightarrow> ('v payload, 'y) env
     \<Rightarrow> (error + 'd graphql_result) \<times> ('v payload, 'y) env" where
  "execute_loop c w parse_retry_after pl cost_value retries e =
     (case attempt c w parse_retry_after pl cost_value retries e of
        (Raise err, e') \<Rightarrow> (Inl err, e')
      | (Return r, e') \<Rightarrow> (Inr r, e')
      | (Continue, e') \<Rightarrow> execute_loop c w parse_retry_after pl cost_value (retries + 1) e')"
  by pat_completeness auto
termination
  by (relation "measure (\<lambda>(c, w, p, pl, cost, retries, e). max_retries_429 c - retries)")
     (auto dest!: attempt_Continue [OF sym])

declare execute_loop.simps [simp del]

text \<open>
  The cost handed to the local throttle (lines 140-142): \<open>None\<close> counts as 1, a negative
  cost as 0.
\<close>

definition cost_value :: "int option \<Rightarrow> int" where
  "cost_value estimated_cost =
     (let v = (case estimated_cost of None \<Rightarrow> 1 | Some n \<Rightarrow> n) in if v < 0 then 0 else v)"

text \<open>\<^verbatim>\<open>GraphQLClient.execute\<close>. An empty \<^verbatim>\<open>operation_name\<close> is not sent.\<close>

definition execute ::
  "client \<Rightarrow> ('v payload, 'd gql_body) world \<Rightarrow> (string option \<Rightarrow> (rat \<times> string) option)
     \<Rightarrow> string \<Rightarrow> 'v option \<Rightarrow> string option \<Rightarrow> int option \<Rightarrow> ('v payload, 'y) env
     \<Rightarrow> (error + 'd graphql_result) \<times> ('v payload, 'y) env" where
  "execute c w parse_retry_after q vars operation_name estimated_cost e =
     (if q = [] \<or> strip q = [] then (Inl ValueError, e)
      else
        execute_loop c w parse_retry_after
          \<lparr>query = q, variables = vars,
           operationName = (if operation_name = Some [] then None else operation_name)\<rparr>
          (cost_value estimated_cost) 0 e)"

section \<open>JiraRestClient\<close>

text \<open>
  The largest number of seconds that \<^verbatim>\<open>timedelta(seconds=...)\<close> takes (999999999 days and
  86399 seconds) and the largest \<^verbatim>\<open>datetime\<close> (the last microsecond of the year 9999, in
  seconds since the epoch): beyond them Python raises \<^verbatim>\<open>OverflowError\<close>.
\<close>

definition timedelta_max_seconds :: int where
  "timedelta_max_seconds = 86399999999999"

definition datetime_max :: rat where
  "datetime_max = 253402300800 - 1 / 1000000"

text \<open>
  \<^verbatim>\<open>JiraRestClient._parse_retry_after\<close>. \<open>parse_retry_after\<close> is again the function of the
  missing module \<^verbatim>\<open>retry\<close>, called here on the stripped header. In
  \<^verbatim>\<open>self._now() + timedelta(seconds=seconds)\<close> the clock is read first; then the
  \<^verbatim>\<open>timedelta\<close> or the sum may be out of range, which raises \<^verbatim>\<open>OverflowError\<close>.
\<close>

definition rest_parse_retry_after ::
  "('q, 'b) world \<Rightarrow> (string option \<Rightarrow> (rat \<times> string) option) \<Rightarrow> string option
     \<Rightarrow> ('q, 'y) env \<Rightarrow> (error + rat \<times> string) \<times> ('q, 'y) env" where
  "rest_parse_retry_after w parse_retry_after header_value e =
     (case header_value of
        None \<Rightarrow> (Inl ValueError, e)
      | Some h \<Rightarrow>
          let candidate = strip h in
          if candidate = [] then (Inl ValueError, e)
          else if isdigit candidate then
            (case int_str candidate of
               None \<Rightarrow> (Inl ValueError, e)
             | Some seconds \<Rightarrow>
                 let (t, e1) = now w e in
                 if seconds > timedelta_max_seconds \<or> t + of_int seconds > datetime_max
                 then (Inl OverflowError, e1)
                 else (Inr (t + of_int seconds, ''delta-seconds''), e1))
          else (raised (parse_retry_after (Some candidate)), e))"

record 'p rest_request =
  url_path :: string
  params :: "'p option"

text \<open>The decoded body of a REST response: a JSON object or any other JSON value.\<close>

datatype 'j rest_body = NotObject | Object 'j

text \<open>One pass through the loop body of \<^verbatim>\<open>JiraRestClient.get_json\<close> (lines 89-200).\<close>

definition rest_attempt ::
  "client \<Rightarrow> ('p rest_request, 'j rest_body) world \<Rightarrow> (string option \<Rightarrow> (rat \<times> string) option)
     \<Rightarrow> 'p rest_request \<Rightarrow> nat \<Rightarrow> ('p rest_request, 'y) env
     \<Rightarrow> 'j outcome \<times> ('p rest_request, 'y) env" where
  "rest_attempt c w parse_retry_after rq retries e =
     (case exchange w rq (emit HeadersBuilt e) of
        (RequestError msg, e2) \<Rightarrow> (Raise (TransportError 0 msg), e2)
      | (Response r, e2) \<Rightarrow>
          if status_code r = 429 then
            on_429 (max_retries_429 c) (max_wait_seconds c) w retries (retry_after_header r)
              (rest_parse_retry_after w parse_retry_after (retry_after_header r) e2)
          else if status_code r \<ge> 500 then
            (Raise (TransportError (status_code r) (take 200 (text_body r))), e2)
          else if status_code r \<ge> 400 then
            (Raise (TransportError (status_code r) (take 200 (text_body r))), e2)
          else
            (case json r of
               Inl msg \<Rightarrow> (Raise (SerializationError (''Failed to parse JSON: '' @ msg)), e2)
             | Inr NotObject \<Rightarrow> (Raise (SerializationError ''Expected object JSON response''), e2)
             | Inr (Object body) \<Rightarrow> (Return body, e2)))"

lemma rest_attempt_Continue:
  "rest_attempt c w p rq retries e = (Continue, e') \<Longrightarrow> retries < max_retries_429 c"
  by (auto simp: rest_attempt_def
      split: prod.splits sum.splits http_outcome.splits if_splits rest_body.splits
      dest: on_429_Continue)

function get_json_loop ::
  "client \<Rightarrow> ('p rest_request, 'j rest_body) world \<Rightarrow> (string option \<Rightarrow> (rat \<times> string) option)
     \<Rightarrow> 'p rest_request \<Rightarrow> nat \<Rightarrow> ('p rest_request, 'y) env
     \<Rightarrow> (error + 'j) \<times> ('p rest_request, 'y) env" where
  "get_json_loop c w parse_retry_after rq retries e =
     (case rest_attempt c w parse_retry_after rq retries e of
        (Raise err, e') \<Rightarrow> (Inl err, e')
      | (Return r, e') \<Rightarrow> (Inr r, e')
      | (Continue, e') \<Rightarrow> get_json_loop c w parse_retry_after rq (retries + 1) e')"
  by pat_completeness auto
termination
  by (relation "measure (\<lambda>(c, w, p, rq, retries, e). max_retries_429 c - retries)")
     (auto dest!: rest_attempt_Continue [OF sym])

declare get_json_loop.simps [simp del]

text \<open>\<^verbatim>\<open>JiraRestClient.get_json\<close>: a path without a leading slash gets one.\<close>

definition get_json ::
  "client \<Rightarrow> ('p rest_request, 'j rest_body) world \<Rightarrow> (string option \<Rightarrow> (rat \<times> string) option)
     \<Rightarrow> string \<Rightarrow> 'p option \<Rightarrow> ('p rest_request, 'y) env
     \<Rightarrow> (error + 'j) \<times> ('p rest_request, 'y) env" where
  "get_json c w parse_retry_after path ps e =
     (if path = [] \<or> strip path = [] then (Inl ValueError, e)
      else
        get_json_loop c w parse_retry_after
          \<lparr>url_path = (if hd path = CHR ''/'' then path else CHR ''/'' # path), params = ps\<rparr> 0 e)"

section \<open>The parser of Retry-After\<close>

text \<open>
  Modelled from the spec: function \<^verbatim>\<open>parse_retry_after\<close> of module \<^verbatim>\<open>retry\<close>, which is not
  among the sources. Section 4.1: an empty or blank value fails; a trimmed value made of
  decimal digits only is that many whole seconds after now; otherwise the value is read
  as an ISO-8601 instant; anything else fails. \<open>t\<close> is the time now and \<open>read_iso\<close> the reader
  of ISO-8601 instants.
\<close>

definition parse_retry_after ::
  "rat \<Rightarrow> (string \<Rightarrow> rat option) \<Rightarrow> string option \<Rightarrow> (rat \<times> string) option" where
  "parse_retry_after t read_iso raw =
     (case raw of
        None \<Rightarrow> None
      | Some h \<Rightarrow>
          let s = strip h in
          if s = [] then None
          else
            (case int_of_string s of
               Some seconds \<Rightarrow> Some (t + of_int seconds, ''delta-seconds'')
             | None \<Rightarrow>
                 (case read_iso s of Some instant \<Rightarrow> Some (instant, ''iso-8601'') | None \<Rightarrow> None)))"

section \<open>Cursor pagination of Jira projects\<close>

text \<open>
  The page types that the generated module \<^verbatim>\<open>gen/jira_projects_api.py\<close> parses a response
  into (its template is in \<^verbatim>\<open>tools/generate_jira_project_models.py\<close>): a connection is a page
  info and a list of edges, an edge a cursor and a node.
\<close>

record page_info =
  has_next_page :: bool
  end_cursor :: "string option"

datatype 'n edge = Edge (cursor: "string option") (node: 'n)

record 'n connection =
  page_info :: page_info
  edges :: "'n edge list"

datatype opsgenie_team_node = OpsgenieTeamNode (team_id: string) (team_name: string)

datatype jira_project_node =
  JiraProjectNode (project_id: "string option") (project_key: string) (project_name: string)
    (opsgenie_teams: "opsgenie_team_node connection")

text \<open>The records of \<^verbatim>\<open>canonical_models.py\<close> that the paginators yield.\<close>

datatype jira_project =
  JiraProject (cloud_id: string) (key: string) (name: string) (project_type: "string option")

datatype opsgenie_team_ref = OpsgenieTeamRef string string

datatype canonical_project =
  CanonicalProjectWithOpsgenieTeams (project: jira_project) (teams: "opsgenie_team_ref list")

text \<open>
  What the paginators take from the generated module, which is not among the sources: its
  schema flags, its refetch strategy, its query texts and its two parsers of response
  data (\<open>'d\<close> is the type of the decoded \<^verbatim>\<open>data\<close> of a response).
\<close>

record 'd api =
  PAGEINFO_HAS_END_CURSOR :: bool
  PROJECTS_EDGE_HAS_CURSOR :: bool
  OPSGENIE_EDGE_HAS_CURSOR :: bool
  REFETCH_STRATEGY :: string
  JIRA_PROJECT_OPSGENIE_TEAMS_PAGE_QUERY :: string
  build_jira_projects_page_query :: "string list \<Rightarrow> error + string"
  parse_jira_projects_page :: "'d \<Rightarrow> error + jira_project_node connection"
  parse_project_opsgenie_teams :: "'d \<Rightarrow> error + opsgenie_team_node connection"

text \<open>The variables of the two operations; the second has two shapes, by refetch strategy.\<close>

datatype variables =
    ProjectsPage string int "string option" int
  | TeamsPageOfNode string int string
  | TeamsPageOfKey string string int string

text \<open>
  \<^verbatim>\<open>str.upper()\<close> on strings whose characters are code points below 256: the letters a to z
  and the Latin-1 letters 224 to 254 (but not the division sign, 247) go to the code point
  32 below, the sharp s (223) becomes \<^verbatim>\<open>SS\<close>, and every other character is left as it is.
  The micro sign (181) and the y with diaeresis (255) are the two characters below 256
  whose upper case (code points 924 and 376) is not below 256; strings that contain them
  are outside this model, which leaves them as they are.
\<close>

definition upper_char :: "char \<Rightarrow> string" where
  "upper_char c =
     (let n = (of_char c :: nat)
      in if (97 \<le> n \<and> n \<le> 122) \<or> (224 \<le> n \<and> n \<le> 254 \<and> n \<noteq> 247) then [char_of (n - 32)]
         else if n = 223 then ''SS''
         else [c])"

definition upper :: "string \<Rightarrow> string" where
  "upper s = concat (map upper_char s)"

text \<open>\<^verbatim>\<open>_normalize_project_types\<close> (the same function in both modules).\<close>

definition normalize_project_types :: "string list \<Rightarrow> error + string list" where
  "normalize_project_types project_types =
     (let cleaned = filter (\<lambda>v. v \<noteq> []) (map (\<lambda>raw. upper (strip raw)) project_types)
      in if cleaned = [] then Inl ValueError else Inr cleaned)"

text \<open>
  \<^verbatim>\<open>map_project_with_opsgenie_teams\<close> of \<^verbatim>\<open>mappers/jira_projects_mapper.py\<close>; \<open>team_refs\<close> is its
  loop over the teams, which keeps the first team of every id.
\<close>

fun team_refs :: "string set \<Rightarrow> opsgenie_team_node list \<Rightarrow> error + opsgenie_team_ref list" where
  "team_refs seen [] = Inr []"
| "team_refs seen (t # ts) =
     (let tid = strip (team_id t) in
      if tid = [] then Inl ValueError
      else if tid \<in> seen then team_refs seen ts
      else
        let tname = strip (team_name t) in
        if tname = [] then Inl ValueError
        else (case team_refs (insert tid seen) ts of
                Inl err \<Rightarrow> Inl err
              | Inr refs \<Rightarrow> Inr (OpsgenieTeamRef tid tname # refs)))"

definition map_project_with_opsgenie_teams ::
  "string \<Rightarrow> jira_project_node \<Rightarrow> opsgenie_team_node list \<Rightarrow> error + canonical_project" where
  "map_project_with_opsgenie_teams cloud p opsgenie_teams_list =
     (let cloud_id_clean = strip cloud in
      if cloud_id_clean = [] then Inl ValueError
      else
        let pkey = strip (project_key p) in
        if pkey = [] then Inl ValueError
        else
          let pname = strip (project_name p) in
          if pname = [] then Inl ValueError
          else (case team_refs {} opsgenie_teams_list of
                  Inl err \<Rightarrow> Inl err
                | Inr refs \<Rightarrow>
                    Inr (CanonicalProjectWithOpsgenieTeams
                           (JiraProject cloud_id_clean pkey pname None) refs)))"

text \<open>A Python string is true when it is not \<^verbatim>\<open>None\<close> and not empty.\<close>

definition truthy :: "string option \<Rightarrow> bool" where
  "truthy s = (s \<noteq> None \<and> s \<noteq> Some [])"

text \<open>
  \<^verbatim>\<open>_next_after_from_pageinfo\<close>. Its first argument is \<^verbatim>\<open>api.PAGEINFO_HAS_END_CURSOR\<close>;
  \<open>Inr None\<close> is the returned \<^verbatim>\<open>None\<close>.
\<close>

definition next_after_from_pageinfo ::
  "bool \<Rightarrow> bool \<Rightarrow> string option \<Rightarrow> bool \<Rightarrow> string option list \<Rightarrow> string
     \<Rightarrow> error + string option" where
  "next_after_from_pageinfo pageinfo_has_end_cursor has_next end_cur edge_has_cursor
       edges_cursors path =
     (if \<not> has_next then Inr None
      else if pageinfo_has_end_cursor \<and> truthy end_cur then Inr end_cur
      else
        (case (if edge_has_cursor then find truthy (rev edges_cursors) else None) of
           Some c \<Rightarrow> Inr c
         | None \<Rightarrow> Inl (SerializationError (''Pagination cursor missing for '' @ path))))"

text \<open>
  The handler around both parsers: a \<^verbatim>\<open>SerializationError\<close> of the parser becomes a
  \<^verbatim>\<open>GraphQLOperationError\<close> when the result carries errors.
\<close>

definition parse_failure :: "error \<Rightarrow> string list option \<Rightarrow> error" where
  "parse_failure err errs =
     (case err of
        SerializationError m \<Rightarrow>
          (if errs \<noteq> None \<and> errs \<noteq> Some [] then GraphQLOperationError (the errs) else err)
      | _ \<Rightarrow> err)"

definition teams_path :: "jira_project_node \<Rightarrow> string" where
  "teams_path p = ''jira.project['' @ project_key p @ ''].opsgenieTeams''"

text \<open>The variables of one request of \<^verbatim>\<open>_paginate_opsgenie_teams\<close> (lines 224-238).\<close>

definition teams_page_variables ::
  "'d api \<Rightarrow> string \<Rightarrow> jira_project_node \<Rightarrow> int \<Rightarrow> string \<Rightarrow> error + variables" where
  "teams_page_variables a cloud p page_size after =
     (if REFETCH_STRATEGY a = ''node'' then
        let pid = strip (case project_id p of None \<Rightarrow> [] | Some i \<Rightarrow> i) in
        if pid = [] then
          Inl (SerializationError ''Project id is required for node-based opsgenie pagination'')
        else Inr (TeamsPageOfNode pid page_size after)
      else
        let pkey = strip (project_key p) in
        if pkey = [] then Inl (SerializationError ''Project key is required for opsgenie pagination'')
        else Inr (TeamsPageOfKey cloud pkey page_size after))"

text \<open>
  The loops below may run for ever against a server that keeps sending new cursors, so
  each takes fuel, an upper bound on the number of passes of every loop; \<open>None\<close> means that
  the fuel ran out. A generator is run to its end, every \<^verbatim>\<open>yield\<close> being an event of the
  trace. The experimental-API headers do not reach the model's transport and are left out.

  \<open>teams_loop\<close> is the \<^verbatim>\<open>while True\<close> loop of \<^verbatim>\<open>_paginate_opsgenie_teams\<close> (lines 223-269).
\<close>

fun teams_loop ::
  "nat \<Rightarrow> client \<Rightarrow> (variables payload, 'd gql_body) world
     \<Rightarrow> (string option \<Rightarrow> (rat \<times> string) option) \<Rightarrow> 'd api \<Rightarrow> string \<Rightarrow> jira_project_node
     \<Rightarrow> int \<Rightarrow> string \<Rightarrow> string set \<Rightarrow> opsgenie_team_node list
     \<Rightarrow> (variables payload, 'y) env
     \<Rightarrow> ((error + opsgenie_team_node list) \<times> (variables payload, 'y) env) option" where
  "teams_loop 0 c w parse a cloud p page_size after seen_after out e = None"
| "teams_loop (Suc fuel) c w parse a cloud p page_size after seen_after out e =
     (case teams_page_variables a cloud p page_size after of
        Inl err \<Rightarrow> Some (Inl err, e)
      | Inr vars \<Rightarrow>
          (case execute c w parse (JIRA_PROJECT_OPSGENIE_TEAMS_PAGE_QUERY a) (Some vars)
                  (Some ''JiraProjectOpsgenieTeamsPage'') (Some 1) e of
             (Inl err, e1) \<Rightarrow> Some (Inl err, e1)
           | (Inr result, e1) \<Rightarrow>
               (case data result of
                  None \<Rightarrow>
                    Some (Inl (SerializationError
                      ''Missing GraphQL data in opsgenie pagination response''), e1)
                | Some d \<Rightarrow>
                    (case parse_project_opsgenie_teams a d of
                       Inl err \<Rightarrow> Some (Inl (parse_failure err (errors result)), e1)
                     | Inr conn \<Rightarrow>
                         let out' = out @ map node (edges conn) in
                         (case next_after_from_pageinfo (PAGEINFO_HAS_END_CURSOR a)
                                 (has_next_page (page_info conn)) (end_cursor (page_info conn))
                                 (OPSGENIE_EDGE_HAS_CURSOR a) (map cursor (edges conn))
                                 (teams_path p) of
                            Inl err \<Rightarrow> Some (Inl err, e1)
                          | Inr None \<Rightarrow> Some (Inr out', e1)
                          | Inr (Some next_after) \<Rightarrow>
                              if next_after \<in> seen_after then
                                Some (Inl (SerializationError
                                  ''Opsgenie pagination cursor repeated; aborting''), e1)
                              else
                                teams_loop fuel c w parse a cloud p page_size next_after
                                  (insert next_after seen_after) out' e1)))))"

text \<open>\<^verbatim>\<open>_paginate_opsgenie_teams\<close>.\<close>

definition paginate_opsgenie_teams ::
  "nat \<Rightarrow> client \<Rightarrow> (variables payload, 'd gql_body) world
     \<Rightarrow> (string option \<Rightarrow> (rat \<times> string) option) \<Rightarrow> 'd api \<Rightarrow> string \<Rightarrow> jira_project_node
     \<Rightarrow> opsgenie_team_node connection \<Rightarrow> int \<Rightarrow> (variables payload, 'y) env
     \<Rightarrow> ((error + opsgenie_team_node list) \<times> (variables payload, 'y) env) option" where
  "paginate_opsgenie_teams fuel c w parse a cloud p initial_connection page_size e =
     (case next_after_from_pageinfo (PAGEINFO_HAS_END_CURSOR a)
             (has_next_page (page_info initial_connection))
             (end_cursor (page_info initial_connection))
             (OPSGENIE_EDGE_HAS_CURSOR a) (map cursor (edges initial_connection))
             (teams_path p) of
        Inl err \<Rightarrow> Some (Inl err, e)
      | Inr None \<Rightarrow> Some (Inr [], e)
      | Inr (Some after) \<Rightarrow>
          teams_loop fuel c w parse a cloud p page_size after {after} [] e)"

text \<open>
  The \<^verbatim>\<open>for edge in conn.edges\<close> loop of \<^verbatim>\<open>iter_projects_with_opsgenie_linkable_teams\<close>
  (lines 134-154).
\<close>

fun yield_edges ::
  "nat \<Rightarrow> client \<Rightarrow> (variables payload, 'd gql_body) world
     \<Rightarrow> (string option \<Rightarrow> (rat \<times> string) option) \<Rightarrow> 'd api \<Rightarrow> string \<Rightarrow> int
     \<Rightarrow> jira_project_node edge list \<Rightarrow> (variables payload, canonical_project) env
     \<Rightarrow> ((error + unit) \<times> (variables payload, canonical_project) env) option" where
  "yield_edges fuel c w parse a cloud page_size [] e = Some (Inr (), e)"
| "yield_edges fuel c w parse a cloud page_size (ed # rest) e =
     (let p = node ed;
          teams_conn = opsgenie_teams p;
          first_teams = map node (edges teams_conn)
      in case (if has_next_page (page_info teams_conn)
               then paginate_opsgenie_teams fuel c w parse a cloud p teams_conn page_size e
               else Some (Inr [], e)) of
           None \<Rightarrow> None
         | Some (Inl err, e1) \<Rightarrow> Some (Inl err, e1)
         | Some (Inr extra, e1) \<Rightarrow>
             (case map_project_with_opsgenie_teams cloud p (first_teams @ extra) of
                Inl err \<Rightarrow> Some (Inl err, e1)
              | Inr r \<Rightarrow>
                  yield_edges fuel c w parse a cloud page_size rest (emit (Yielded r) e1)))"

text \<open>The \<^verbatim>\<open>while True\<close> loop of \<^verbatim>\<open>iter_projects_with_opsgenie_linkable_teams\<close> (lines 110-168).\<close>

fun projects_loop ::
  "nat \<Rightarrow> client \<Rightarrow> (variables payload, 'd gql_body) world
     \<Rightarrow> (string option \<Rightarrow> (rat \<times> string) option) \<Rightarrow> 'd api \<Rightarrow> string \<Rightarrow> int \<Rightarrow> string
     \<Rightarrow> string option \<Rightarrow> string set \<Rightarrow> (variables payload, canonical_project) env
     \<Rightarrow> ((error + unit) \<times> (variables payload, canonical_project) env) option" where
  "projects_loop 0 c w parse a cloud page_size q after seen_after e = None"
| "projects_loop (Suc fuel) c w parse a cloud page_size q after seen_after e =
     (case execute c w parse q (Some (ProjectsPage cloud page_size after page_size))
             (Some ''JiraProjectsPage'') (Some 1) e of
        (Inl err, e1) \<Rightarrow> Some (Inl err, e1)
      | (Inr result, e1) \<Rightarrow>
          (case data result of
             None \<Rightarrow> Some (Inl (SerializationError ''Missing GraphQL data in response''), e1)
           | Some d \<Rightarrow>
               (case parse_jira_projects_page a d of
                  Inl err \<Rightarrow> Some (Inl (parse_failure err (errors result)), e1)
                | Inr conn \<Rightarrow>
                    (case yield_edges (Suc fuel) c w parse a cloud page_size (edges conn) e1 of
                       None \<Rightarrow> None
                     | Some (Inl err, e2) \<Rightarrow> Some (Inl err, e2)
                     | Some (Inr u, e2) \<Rightarrow>
                         (case next_after_from_pageinfo (PAGEINFO_HAS_END_CURSOR a)
                                 (has_next_page (page_info conn)) (end_cursor (page_info conn))
                                 (PROJECTS_EDGE_HAS_CURSOR a) (map cursor (edges conn))
                                 ''jira.projects'' of
                            Inl err \<Rightarrow> Some (Inl err, e2)
                          | Inr None \<Rightarrow> Some (Inr (), e2)
                          | Inr (Some next_after) \<Rightarrow>
                              if next_after \<in> seen_after then
                                Some (Inl (SerializationError
                                  ''Pagination cursor repeated; aborting to prevent infinite loop''),
                                  e2)
                              else
                                projects_loop fuel c w parse a cloud page_size q (Some next_after)
                                  (insert next_after seen_after) e2)))))"

text \<open>\<^verbatim>\<open>iter_projects_with_opsgenie_linkable_teams\<close>, run to its end.\<close>

definition iter_projects_with_opsgenie_linkable_teams ::
  "nat \<Rightarrow> client \<Rightarrow> (variables payload, 'd gql_body) world
     \<Rightarrow> (string option \<Rightarrow> (rat \<times> string) option) \<Rightarrow> 'd api \<Rightarrow> string \<Rightarrow> string list \<Rightarrow> int
     \<Rightarrow> (variables payload, canonical_project) env
     \<Rightarrow> ((error + unit) \<times> (variables payload, canonical_project) env) option" where
  "iter_projects_with_opsgenie_linkable_teams fuel c w parse a cloud project_types page_size e =
     (let cloud_id_clean = strip cloud in
      if cloud_id_clean = [] then Some (Inl ValueError, e)
      else if page_size \<le> 0 then Some (Inl ValueError, e)
      else
        (case normalize_project_types project_types of
           Inl err \<Rightarrow> Some (Inl err, e)
         | Inr normalized_types \<Rightarrow>
             (case build_jira_projects_page_query a normalized_types of
                Inl err \<Rightarrow> Some (Inl err, e)
              | Inr q \<Rightarrow>
                  projects_loop fuel c w parse a cloud_id_clean page_size q None {} e)))"

section \<open>Offset pagination over the REST API\<close>

text \<open>
  The pages that the generated module \<^verbatim>\<open>gen/jira_rest_api.py\<close> parses a response into (its
  template is in \<^verbatim>\<open>tools/generate_jira_rest_models.py\<close>): \<^verbatim>\<open>PageBeanProject\<close> and
  \<^verbatim>\<open>SearchResults\<close>, with the fields that the paginators read. A field that is absent or
  null in the response is \<open>None\<close>.
\<close>

datatype rest_project =
  RestProject (rest_key: "string option") (rest_name: "string option")
    (project_type_key: "string option")

record page_bean_project =
  total :: "int option"
  is_last :: "bool option"
  "values" :: "rest_project list"

record 'i search_results =
  issues_total :: "int option"
  issues :: "'i list"

datatype rest_params =
    ProjectSearch int int
  | IssueSearch string int int string

text \<open>\<^verbatim>\<open>str.replace\<close> of one character by another.\<close>

definition replace_char :: "char \<Rightarrow> char \<Rightarrow> string \<Rightarrow> string" where
  "replace_char a b s = map (\<lambda>c. if c = a then b else c) s"

text \<open>\<^verbatim>\<open>_normalize_project_type\<close> and \<^verbatim>\<open>map_rest_project\<close> of \<^verbatim>\<open>mappers/jira_rest_projects_mapper.py\<close>.\<close>

definition normalize_project_type :: "string \<Rightarrow> string" where
  "normalize_project_type v = replace_char CHR '' '' CHR ''_'' (replace_char CHR ''-'' CHR ''_'' (upper (strip v)))"

definition or_empty :: "string option \<Rightarrow> string" where
  "or_empty s = (case s of None \<Rightarrow> [] | Some v \<Rightarrow> v)"

definition map_rest_project :: "string \<Rightarrow> rest_project \<Rightarrow> error + jira_project" where
  "map_rest_project cloud p =
     (let cloud_id_clean = strip cloud in
      if cloud_id_clean = [] then Inl ValueError
      else
        let k = strip (or_empty (rest_key p)) in
        if k = [] then Inl ValueError
        else
          let n = strip (or_empty (rest_name p)) in
          if n = [] then Inl ValueError
          else
            let raw_type = strip (or_empty (project_type_key p)) in
            Inr (JiraProject cloud_id_clean k n
                   (if raw_type = [] then None else Some (normalize_project_type raw_type))))"

text \<open>
  The \<^verbatim>\<open>for item in values\<close> loop of \<^verbatim>\<open>iter_projects_via_rest\<close> (lines 55-61): projects
  without a type or of another type are skipped.
\<close>

fun yield_projects ::
  "string \<Rightarrow> string set \<Rightarrow> rest_project list \<Rightarrow> ('q, canonical_project) env
     \<Rightarrow> (error + unit) \<times> ('q, canonical_project) env" where
  "yield_projects cloud normalized_types [] e = (Inr (), e)"
| "yield_projects cloud normalized_types (item # rest) e =
     (case map_rest_project cloud item of
        Inl err \<Rightarrow> (Inl err, e)
      | Inr p \<Rightarrow>
          (case project_type p of
             None \<Rightarrow> yield_projects cloud normalized_types rest e
           | Some t \<Rightarrow>
               if t \<notin> normalized_types then yield_projects cloud normalized_types rest e
               else yield_projects cloud normalized_types rest
                      (emit (Yielded (CanonicalProjectWithOpsgenieTeams p [])) e)))"

text \<open>
  What the statements after the \<^verbatim>\<open>for\<close> loop decide about a page: \<^verbatim>\<open>break\<close>, an exception, or
  the next \<^verbatim>\<open>start_at\<close>.
\<close>

datatype verdict = Stop | Fail error | Next int

text \<open>Lines 63-81 of \<^verbatim>\<open>jira_rest_projects.py\<close>, \<open>n\<close> being \<^verbatim>\<open>len(values)\<close>.\<close>

definition projects_page_verdict :: "int \<Rightarrow> int \<Rightarrow> page_bean_project \<Rightarrow> verdict" where
  "projects_page_verdict start_at page_size page =
     (let n = int (length (values page));
          has_is_last = (is_last page \<noteq> None)
      in if has_is_last \<and> is_last page = Some True then Stop
         else
           let has_total = (case total page of None \<Rightarrow> False | Some t \<Rightarrow> t \<ge> 0) in
           if has_total \<and> start_at + n \<ge> the (total page) then Stop
           else if \<not> has_total \<and> n < page_size then Stop
           else if n = 0 then
             (if has_is_last \<and> is_last page \<noteq> Some True then
                Fail (SerializationError
                  ''Received empty page with isLast=false; cannot continue pagination'')
              else Stop)
           else Next (start_at + n))"

text \<open>Lines 72-82 of \<^verbatim>\<open>jira_rest_issues.py\<close>.\<close>

definition issues_page_verdict :: "int \<Rightarrow> int \<Rightarrow> 'i search_results \<Rightarrow> verdict" where
  "issues_page_verdict start_at page_size page =
     (let n = int (length (issues page));
          has_total = (case issues_total page of None \<Rightarrow> False | Some t \<Rightarrow> t \<ge> 0)
      in if has_total \<and> start_at + n \<ge> the (issues_total page) then Stop
         else if \<not> has_total \<and> n < page_size then Stop
         else if n = 0 then Stop
         else Next (start_at + n))"

text \<open>
  The \<^verbatim>\<open>while True\<close> loop of \<^verbatim>\<open>iter_projects_via_rest\<close> (lines 43-81). \<open>from_dict\<close> is
  \<^verbatim>\<open>api.PageBeanProject.from_dict\<close> of the generated module, a parameter.
\<close>

fun rest_projects_loop ::
  "nat \<Rightarrow> client \<Rightarrow> (rest_params rest_request, 'j rest_body) world
     \<Rightarrow> (string option \<Rightarrow> (rat \<times> string) option) \<Rightarrow> ('j \<Rightarrow> error + page_bean_project)
     \<Rightarrow> string \<Rightarrow> string set \<Rightarrow> int \<Rightarrow> int \<Rightarrow> int set
     \<Rightarrow> (rest_params rest_request, canonical_project) env
     \<Rightarrow> ((error + unit) \<times> (rest_params rest_request, canonical_project) env) option" where
  "rest_projects_loop 0 c w parse from_dict cloud normalized_types page_size start_at
       seen_start_at e = None"
| "rest_projects_loop (Suc fuel) c w parse from_dict cloud normalized_types page_size start_at
       seen_start_at e =
     (if start_at \<in> seen_start_at then
        Some (Inl (SerializationError
          ''Pagination startAt repeated; aborting to prevent infinite loop''), e)
      else
        (case get_json c w parse ''/rest/api/3/project/search''
                (Some (ProjectSearch start_at page_size)) e of
           (Inl err, e1) \<Rightarrow> Some (Inl err, e1)
         | (Inr body, e1) \<Rightarrow>
             (case from_dict body of
                Inl err \<Rightarrow> Some (Inl err, e1)
              | Inr page \<Rightarrow>
                  (case yield_projects cloud normalized_types (values page) e1 of
                     (Inl err, e2) \<Rightarrow> Some (Inl err, e2)
                   | (Inr u, e2) \<Rightarrow>
                       (case projects_page_verdict start_at page_size page of
                          Stop \<Rightarrow> Some (Inr (), e2)
                        | Fail err \<Rightarrow> Some (Inl err, e2)
                        | Next start_at' \<Rightarrow>
                            rest_projects_loop fuel c w parse from_dict cloud normalized_types
                              page_size start_at' (insert start_at seen_start_at) e2)))))"

text \<open>\<^verbatim>\<open>iter_projects_via_rest\<close>, run to its end.\<close>

definition iter_projects_via_rest ::
  "nat \<Rightarrow> client \<Rightarrow> (rest_params rest_request, 'j rest_body) world
     \<Rightarrow> (string option \<Rightarrow> (rat \<times> string) option) \<Rightarrow> ('j \<Rightarrow> error + page_bean_project)
     \<Rightarrow> string \<Rightarrow> string list \<Rightarrow> int
     \<Rightarrow> (rest_params rest_request, canonical_project) env
     \<Rightarrow> ((error + unit) \<times> (rest_params rest_request, canonical_project) env) option" where
  "iter_projects_via_rest fuel c w parse from_dict cloud project_types page_size e =
     (let cloud_id_clean = strip cloud in
      if cloud_id_clean = [] then Some (Inl ValueError, e)
      else if page_size \<le> 0 then Some (Inl ValueError, e)
      else
        (case normalize_project_types project_types of
           Inl err \<Rightarrow> Some (Inl err, e)
         | Inr normalized \<Rightarrow>
             rest_projects_loop fuel c w parse from_dict cloud_id_clean (set normalized)
               page_size 0 {} e))"

text \<open>
  The \<^verbatim>\<open>for issue in issues\<close> loop of \<^verbatim>\<open>iter_issues_via_rest\<close>; \<open>map_issue\<close> stands for the
  mapper of \<^verbatim>\<open>mappers/jira_rest_issues_mapper.py\<close> applied to the cloud id, a parameter: what it
  maps an issue to has no part in the pagination.
\<close>

fun yield_issues ::
  "('i \<Rightarrow> error + 'r) \<Rightarrow> 'i list \<Rightarrow> ('q, 'r) env \<Rightarrow> (error + unit) \<times> ('q, 'r) env" where
  "yield_issues map_issue [] e = (Inr (), e)"
| "yield_issues map_issue (issue # rest) e =
     (case map_issue issue of
        Inl err \<Rightarrow> (Inl err, e)
      | Inr r \<Rightarrow> yield_issues map_issue rest (emit (Yielded r) e))"

text \<open>The \<^verbatim>\<open>while True\<close> loop of \<^verbatim>\<open>iter_issues_via_rest\<close> (lines 52-82).\<close>

fun rest_issues_loop ::
  "nat \<Rightarrow> client \<Rightarrow> (rest_params rest_request, 'j rest_body) world
     \<Rightarrow> (string option \<Rightarrow> (rat \<times> string) option) \<Rightarrow> ('j \<Rightarrow> error + 'i search_results)
     \<Rightarrow> ('i \<Rightarrow> error + 'r) \<Rightarrow> string \<Rightarrow> string \<Rightarrow> int \<Rightarrow> int \<Rightarrow> int set
     \<Rightarrow> (rest_params rest_request, 'r) env
     \<Rightarrow> ((error + unit) \<times> (rest_params rest_request, 'r) env) option" where
  "rest_issues_loop 0 c w parse from_dict map_issue jql fields_param page_size start_at
       seen_start_at e = None"
| "rest_issues_loop (Suc fuel) c w parse from_dict map_issue jql fields_param page_size start_at
       seen_start_at e =
     (if start_at \<in> seen_start_at then
        Some (Inl (SerializationError
          ''Pagination startAt repeated; aborting to prevent infinite loop''), e)
      else
        (case get_json c w parse ''/rest/api/3/search''
                (Some (IssueSearch jql start_at page_size fields_param)) e of
           (Inl err, e1) \<Rightarrow> Some (Inl err, e1)
         | (Inr body, e1) \<Rightarrow>
             (case from_dict body of
                Inl err \<Rightarrow> Some (Inl err, e1)
              | Inr page \<Rightarrow>
                  (case yield_issues map_issue (issues page) e1 of
                     (Inl err, e2) \<Rightarrow> Some (Inl err, e2)
                   | (Inr u, e2) \<Rightarrow>
                       (case issues_page_verdict start_at page_size page of
                          Stop \<Rightarrow> Some (Inr (), e2)
                        | Fail err \<Rightarrow> Some (Inl err, e2)
                        | Next start_at' \<Rightarrow>
                            rest_issues_loop fuel c w parse from_dict map_issue jql fields_param
                              page_size start_at' (insert start_at seen_start_at) e2)))))"

text \<open>\<^verbatim>\<open>str.join\<close> with a comma.\<close>

fun join_comma :: "string list \<Rightarrow> string" where
  "join_comma [] = []"
| "join_comma [x] = x"
| "join_comma (x # y # ys) = x @ '','' @ join_comma (y # ys)"

definition DEFAULT_SEARCH_FIELDS :: "string list" where
  "DEFAULT_SEARCH_FIELDS =
     [''project'', ''issuetype'', ''status'', ''created'', ''updated'', ''resolutiondate'',
      ''assignee'', ''reporter'', ''labels'', ''components'']"

text \<open>\<^verbatim>\<open>iter_issues_via_rest\<close>, run to its end; \<open>None\<close> or an empty list of fields means the default.\<close>

definition iter_issues_via_rest ::
  "nat \<Rightarrow> client \<Rightarrow> (rest_params rest_request, 'j rest_body) world
     \<Rightarrow> (string option \<Rightarrow> (rat \<times> string) option) \<Rightarrow> ('j \<Rightarrow> error + 'i search_results)
     \<Rightarrow> ('i \<Rightarrow> error + 'r) \<Rightarrow> string \<Rightarrow> string \<Rightarrow> int \<Rightarrow> string list option
     \<Rightarrow> (rest_params rest_request, 'r) env
     \<Rightarrow> ((error + unit) \<times> (rest_params rest_request, 'r) env) option" where
  "iter_issues_via_rest fuel c w parse from_dict map_issue cloud jql page_size field_names e =
     (if strip cloud = [] then Some (Inl ValueError, e)
      else
        let jql_clean = strip jql in
        if jql_clean = [] then Some (Inl ValueError, e)
        else if page_size \<le> 0 then Some (Inl ValueError, e)
        else
          let chosen = (case field_names of None \<Rightarrow> DEFAULT_SEARCH_FIELDS
                        | Some fs \<Rightarrow> if fs = [] then DEFAULT_SEARCH_FIELDS else fs);
              field_list = filter (\<lambda>f. f \<noteq> []) (map strip chosen)
          in if field_list = [] then Some (Inl ValueError, e)
             else rest_issues_loop fuel c w parse from_dict map_issue jql_clean
                    (join_comma field_list) page_size 0 {} e)"

section \<open>Traces of the executors\<close>

lemma throttled_append [simp]: "throttled (xs @ ys) = throttled xs @ throttled ys"
  by (induction xs rule: throttled.induct) auto

lemma requests_append [simp]: "requests (xs @ ys) = requests xs @ requests ys"
  by (induction xs rule: requests.induct) auto

lemma sleeps_append [simp]: "sleeps (xs @ ys) = sleeps xs @ sleeps ys"
  by (induction xs rule: sleeps.induct) auto

lemma yielded_append [simp]: "yielded (xs @ ys) = yielded xs @ yielded ys"
  by (induction xs rule: yielded.induct) auto

lemma consume_trace:
  "consume w cost mw b e = (r, b', e') \<Longrightarrow>
     \<exists>evs. trace e' = trace e @ evs \<and> throttled evs = [] \<and> requests evs = []"
  by (auto simp: consume_def now_def sleeper_def emit_def Let_def split: if_splits)

lemma consume_local_budget_trace:
  "consume_local_budget c w cost e = (r, e') \<Longrightarrow>
     \<exists>evs. trace e' = trace e @ evs
       \<and> set (throttled evs) \<subseteq> {(of_int cost, of_int (max_wait_seconds c))} \<and> requests evs = []"
  by (auto simp: consume_local_budget_def emit_def split: option.splits prod.splits sum.splits
      dest!: consume_trace)

lemma rate_limited_trace:
  "rate_limited mr mw w retries h t e = (r, e') \<Longrightarrow>
     \<exists>evs. trace e' = trace e @ evs \<and> throttled evs = [] \<and> requests evs = []"
  by (auto simp: rate_limited_def now_def sleeper_def emit_def Let_def split: if_splits)

lemma on_429_trace:
  "on_429 mr mw w retries h (p, e) = (r, e') \<Longrightarrow>
     \<exists>evs. trace e' = trace e @ evs \<and> throttled evs = [] \<and> requests evs = []"
  by (auto simp: on_429_def split: sum.splits error.splits dest: rate_limited_trace)

lemma attempt_trace:
  assumes "attempt c w p pl cost retries e = (r, e')"
  shows "\<exists>evs. trace e' = trace e @ evs
           \<and> set (throttled evs) \<subseteq> {(of_int cost, of_int (max_wait_seconds c))}"
proof -
  obtain r1 e1 where b: "consume_local_budget c w cost e = (r1, e1)" by force
  from consume_local_budget_trace [OF b] obtain evs1 where
    t1: "trace e1 = trace e @ evs1"
        "set (throttled evs1) \<subseteq> {(of_int cost, of_int (max_wait_seconds c))}"
    by blast
  show ?thesis
  proof (cases r1)
    case (Inl err)
    with assms b t1 show ?thesis by (auto simp: attempt_def)
  next
    case (Inr u)
    obtain out e2 where x: "exchange w pl (emit HeadersBuilt e1) = (out, e2)" by force
    then have t2: "trace e2 = trace e1 @ [HeadersBuilt, Sent pl]"
      by (auto simp: exchange_def emit_def)
    have "\<exists>evs. trace e' = trace e2 @ evs \<and> throttled evs = []"
      using assms b Inr x
      by (auto simp: attempt_def split: http_outcome.splits if_splits sum.splits gql_body.splits
          dest!: on_429_trace)
    then show ?thesis using t1 t2 by auto
  qed
qed

lemma execute_loop_trace:
  "execute_loop c w p pl cost retries e = (r, e') \<Longrightarrow>
     \<exists>evs. trace e' = trace e @ evs
       \<and> set (throttled evs) \<subseteq> {(of_int cost, of_int (max_wait_seconds c))}"
proof (induction c w p pl cost retries e rule: execute_loop.induct)
  case (1 c w p pl cost retries e)
  obtain o1 e1 where a: "attempt c w p pl cost retries e = (o1, e1)" by force
  from attempt_trace [OF a] obtain evs1 where
    t1: "trace e1 = trace e @ evs1"
        "set (throttled evs1) \<subseteq> {(of_int cost, of_int (max_wait_seconds c))}"
    by blast
  show ?case
  proof (cases o1)
    case (Raise x)
    with a "1.prems" t1 show ?thesis by (subst (asm) execute_loop.simps) auto
  next
    case (Return x)
    with a "1.prems" t1 show ?thesis by (subst (asm) execute_loop.simps) auto
  next
    case Continue
    with a "1.prems" have "execute_loop c w p pl cost (retries + 1) e1 = (r, e')"
      by (subst (asm) execute_loop.simps) auto
    from "1.IH" [OF a [symmetric] Continue this] t1 show ?thesis by auto
  qed
qed

lemma execute_trace:
  "execute c w p q vars opn est e = (r, e') \<Longrightarrow>
     \<exists>evs. trace e' = trace e @ evs
       \<and> set (throttled evs) \<subseteq> {(of_int (cost_value est), of_int (max_wait_seconds c))}"
  by (auto simp: execute_def split: if_splits dest!: execute_loop_trace)

section \<open>Single passes of the executors\<close>


lemma attempt_429:
  assumes "consume_local_budget c w cost e = (Inr u, e1)"
    and "exchange w pl (emit HeadersBuilt e1) = (Response r, e2)"
    and "status_code r = 429"
  shows "attempt c w parse pl cost retries e =
     on_429 (max_retries_429 c) (max_wait_seconds c) w retries (retry_after_header r)
       (raised (parse (retry_after_header r)), e2)"
  using assms by (simp add: attempt_def)

lemma rest_attempt_429:
  assumes "exchange w rq (emit HeadersBuilt e) = (Response r, e2)"
    and "status_code r = 429"
  shows "rest_attempt c w parse rq retries e =
     on_429 (max_retries_429 c) (max_wait_seconds c) w retries (retry_after_header r)
       (rest_parse_retry_after w parse (retry_after_header r) e2)"
  using assms by (simp add: rest_attempt_def)


lemma execute_loop_Raise:
  "attempt c w p pl cost retries e = (Raise err, e') \<Longrightarrow>
   execute_loop c w p pl cost retries e = (Inl err, e')"
  by (subst execute_loop.simps) simp



lemma get_json_loop_Raise:
  "rest_attempt c w p rq retries e = (Raise err, e') \<Longrightarrow>
   get_json_loop c w p rq retries e = (Inl err, e')"
  by (subst get_json_loop.simps) simp



lemma on_429_unparsed:
  "on_429 mr mw w retries h (Inl ValueError, e)
     = (Raise (RateLimitError None (retries + 1) h None None), e)"
  by (simp add: on_429_def)

lemma rest_parse_retry_after_None:
  assumes "h = None \<or> (\<exists>s. h = Some s \<and> (strip s = []
              \<or> (isdigit (strip s) \<and> int_of_string (strip s) = None)
              \<or> (\<not> isdigit (strip s) \<and> parse (Some (strip s)) = None)))"
  shows "rest_parse_retry_after w parse h e = (Inl ValueError, e)"
  using assms by (auto simp: rest_parse_retry_after_def raised_def int_str_def Let_def)










lemma find_last_truthy:
  assumes "P x" "\<forall>y \<in> set rest. \<not> P y"
  shows "find P (rev (before @ [x] @ rest)) = Some x"
proof -
  have "find P (ys @ x # zs) = Some x" if "\<forall>y \<in> set ys. \<not> P y" for ys zs
    using that assms(1) by (induction ys) auto
  from this [of "rev rest" "rev before"] assms(2) show ?thesis by simp
qed

lemma find_none_truthy: "\<forall>y \<in> set cs. \<not> P y \<Longrightarrow> find P (rev cs) = None"
  by (simp add: find_None_iff)

lemma consume_quiet:
  "consume w cost mw b e = (r, b', e') \<Longrightarrow> \<exists>evs. trace e' = trace e @ evs \<and> yielded evs = []"
  by (auto simp: consume_def now_def sleeper_def emit_def Let_def split: if_splits)

lemma consume_local_budget_quiet:
  "consume_local_budget c w cost e = (r, e') \<Longrightarrow>
     \<exists>evs. trace e' = trace e @ evs \<and> yielded evs = []"
  by (auto simp: consume_local_budget_def emit_def split: option.splits prod.splits sum.splits
      dest!: consume_quiet)

lemma rate_limited_quiet:
  "rate_limited mr mw w retries h t e = (r, e') \<Longrightarrow>
     \<exists>evs. trace e' = trace e @ evs \<and> yielded evs = []"
  by (auto simp: rate_limited_def now_def sleeper_def emit_def Let_def split: if_splits)

lemma on_429_quiet:
  "on_429 mr mw w retries h (p, e) = (r, e') \<Longrightarrow>
     \<exists>evs. trace e' = trace e @ evs \<and> yielded evs = []"
  by (auto simp: on_429_def split: sum.splits error.splits dest: rate_limited_quiet)

lemma attempt_quiet:
  assumes "attempt c w p pl cost retries e = (r, e')"
  shows "\<exists>evs. trace e' = trace e @ evs \<and> yielded evs = []"
proof -
  obtain r1 e1 where b: "consume_local_budget c w cost e = (r1, e1)" by force
  from consume_local_budget_quiet [OF b] obtain evs1 where
    t1: "trace e1 = trace e @ evs1" "yielded evs1 = []"
    by blast
  show ?thesis
  proof (cases r1)
    case (Inl err)
    with assms b t1 show ?thesis by (auto simp: attempt_def)
  next
    case (Inr u)
    obtain out e2 where x: "exchange w pl (emit HeadersBuilt e1) = (out, e2)" by force
    then have t2: "trace e2 = trace e1 @ [HeadersBuilt, Sent pl]"
      by (auto simp: exchange_def emit_def)
    have "\<exists>evs. trace e' = trace e2 @ evs \<and> yielded evs = []"
      using assms b Inr x
      by (auto simp: attempt_def split: http_outcome.splits if_splits sum.splits gql_body.splits
          dest!: on_429_quiet)
    then show ?thesis using t1 t2 by auto
  qed
qed

lemma execute_loop_quiet:
  "execute_loop c w p pl cost retries e = (r, e') \<Longrightarrow>
     \<exists>evs. trace e' = trace e @ evs \<and> yielded evs = []"
proof (induction c w p pl cost retries e rule: execute_loop.induct)
  case (1 c w p pl cost retries e)
  obtain o1 e1 where a: "attempt c w p pl cost retries e = (o1, e1)" by force
  from attempt_quiet [OF a] obtain evs1 where
    t1: "trace e1 = trace e @ evs1" "yielded evs1 = []"
    by blast
  show ?case
  proof (cases o1)
    case (Raise x)
    with a "1.prems" t1 show ?thesis by (subst (asm) execute_loop.simps) auto
  next
    case (Return x)
    with a "1.prems" t1 show ?thesis by (subst (asm) execute_loop.simps) auto
  next
    case Continue
    with a "1.prems" have "execute_loop c w p pl cost (retries + 1) e1 = (r, e')"
      by (subst (asm) execute_loop.simps) auto
    from "1.IH" [OF a [symmetric] Continue this] t1 show ?thesis by auto
  qed
qed

lemma execute_quiet:
  "execute c w p q vars opn est e = (r, e') \<Longrightarrow>
     \<exists>evs. trace e' = trace e @ evs \<and> yielded evs = []"
  by (auto simp: execute_def split: if_splits dest!: execute_loop_quiet)

lemma teams_loop_quiet:
  "teams_loop fuel c w parse a cloud p page_size after seen out e = Some (r, e') \<Longrightarrow>
     \<exists>evs. trace e' = trace e @ evs \<and> yielded evs = []"
proof (induction fuel arbitrary: after seen out e)
  case 0
  then show ?case by simp
next
  case (Suc fuel)
  show ?case
  proof (cases "teams_page_variables a cloud p page_size after")
    case (Inl err)
    with Suc.prems show ?thesis by auto
  next
    case (Inr vars)
    obtain r1 e1 where x: "execute c w parse (JIRA_PROJECT_OPSGENIE_TEAMS_PAGE_QUERY a) (Some vars)
                  (Some ''JiraProjectOpsgenieTeamsPage'') (Some 1) e = (r1, e1)"
      by force
    from execute_quiet [OF x] obtain evs1 where
      t1: "trace e1 = trace e @ evs1" "yielded evs1 = []"
      by blast
    have "\<exists>evs. trace e' = trace e1 @ evs \<and> yielded evs = []"
      using Suc.prems Inr x Suc.IH
      by (auto simp: Let_def split: sum.splits option.splits if_splits)
    then show ?thesis using t1 by auto
  qed
qed

lemma paginate_opsgenie_teams_quiet:
  "paginate_opsgenie_teams fuel c w parse a cloud p conn page_size e = Some (r, e') \<Longrightarrow>
     \<exists>evs. trace e' = trace e @ evs \<and> yielded evs = []"
  by (auto simp: paginate_opsgenie_teams_def split: sum.splits option.splits
      dest: teams_loop_quiet)

lemma yield_edges_order:
  "yield_edges fuel c w parse a cloud page_size es e = Some (Inr u, e') \<Longrightarrow>
     \<exists>evs. trace e' = trace e @ evs
       \<and> list_all2 (\<lambda>ed r. \<exists>extra.
             map_project_with_opsgenie_teams cloud (node ed)
               (map node (edges (opsgenie_teams (node ed))) @ extra) = Inr r)
           es (yielded evs)"
proof (induction es arbitrary: e)
  case Nil
  then show ?case by simp
next
  case (Cons ed rest)
  let ?drain = "if has_next_page (page_info (opsgenie_teams (node ed)))
               then paginate_opsgenie_teams fuel c w parse a cloud (node ed)
                      (opsgenie_teams (node ed)) page_size e
               else Some (Inr [], e)"
  from Cons.prems obtain extra e1 where d: "?drain = Some (Inr extra, e1)"
    by (auto simp: Let_def split: option.splits sum.splits if_splits)
  have "\<exists>evs. trace e1 = trace e @ evs \<and> yielded evs = []"
    using d by (auto split: if_splits dest: paginate_opsgenie_teams_quiet)
  then obtain evs1 where t1: "trace e1 = trace e @ evs1" "yielded evs1 = []" by blast
  from Cons.prems d obtain r where
    m: "map_project_with_opsgenie_teams cloud (node ed)
          (map node (edges (opsgenie_teams (node ed))) @ extra) = Inr r"
    and rec: "yield_edges fuel c w parse a cloud page_size rest (emit (Yielded r) e1) = Some (Inr u, e')"
    by (auto simp: Let_def split: option.splits sum.splits if_splits)
  from Cons.IH [OF rec] obtain evs2 where
    t2: "trace e' = trace (emit (Yielded r) e1) @ evs2"
      "list_all2 (\<lambda>ed r. \<exists>extra.
             map_project_with_opsgenie_teams cloud (node ed)
               (map node (edges (opsgenie_teams (node ed))) @ extra) = Inr r)
           rest (yielded evs2)"
    by blast
  have "trace e' = trace e @ (evs1 @ Yielded r # evs2)"
    using t1(1) t2(1) by (simp add: emit_def)
  moreover have "list_all2 (\<lambda>ed r. \<exists>extra.
             map_project_with_opsgenie_teams cloud (node ed)
               (map node (edges (opsgenie_teams (node ed))) @ extra) = Inr r)
           (ed # rest) (yielded (evs1 @ Yielded r # evs2))"
    using t1(2) t2(2) m by auto
  ultimately show ?case by blast
qed




section \<open>Scenarios\<close>

text \<open>
  A server that answers every request with status 200 and the data \<open>()\<close>, a clock that
  stands still, and a parser of \<^verbatim>\<open>Retry-After\<close> that rejects every header.
\<close>

definition ok_world :: "(unit payload, unit gql_body) world" where
  "ok_world =
     \<lparr>clock = (\<lambda>k. 0),
      transport = (\<lambda>k q. Response \<lparr>status_code = 200, retry_after_header = None,
                     text_body = [], json = Inr (Dict (Some ()) None None)\<rparr>)\<rparr>"

definition no_parse :: "string option \<Rightarrow> (rat \<times> string) option" where
  "no_parse h = None"

definition ok_query :: "unit payload" where
  "ok_query = \<lparr>query = ''query { ok }'', variables = None, operationName = None\<rparr>"

definition search_request :: "unit rest_request" where
  "search_request = \<lparr>url_path = ''/rest/api/3/project/search'', params = None\<rparr>"






text \<open>The states of new clients without local throttling, and after their first exchange.\<close>

definition plain_env :: "(unit payload, unit) env" where
  "plain_env = new_env False 0"

definition plain_rest_env :: "(unit rest_request, unit) env" where
  "plain_rest_env = new_env False 0"

definition after_exchange :: "nat \<Rightarrow> (unit payload, unit) env" where
  "after_exchange k = \<lparr>ticks = k, trace = [HeadersBuilt, Sent ok_query], bucket = None\<rparr>"

definition after_rest_exchange :: "nat \<Rightarrow> (unit rest_request, unit) env" where
  "after_rest_exchange k = \<lparr>ticks = k, trace = [HeadersBuilt, Sent search_request], bucket = None\<rparr>"



text \<open>The state of a new client with local throttling, constructed at time 0.\<close>

definition throttling_env :: "(unit payload, unit) env" where
  "throttling_env = new_env True 0"

definition invalid_world :: "(unit payload, unit gql_body) world" where
  "invalid_world =
     \<lparr>clock = (\<lambda>k. 0),
      transport = (\<lambda>k q. Response \<lparr>status_code = 429, retry_after_header = Some ''invalid'',
                     text_body = [], json = Inl ''no body''\<rparr>)\<rparr>"

definition invalid_response :: "unit gql_body response" where
  "invalid_response =
     \<lparr>status_code = 429, retry_after_header = Some ''invalid'', text_body = [], json = Inl ''no body''\<rparr>"

definition vague_rest_response :: "unit rest_body response" where
  "vague_rest_response =
     \<lparr>status_code = 429, retry_after_header = Some ''soon'', text_body = [], json = Inl ''no body''\<rparr>"

definition vague_rest_world :: "(unit rest_request, unit rest_body) world" where
  "vague_rest_world = \<lparr>clock = (\<lambda>k. 0), transport = (\<lambda>k q. Response vague_rest_response)\<rparr>"

text \<open>
  A server that redirects (status 302, a body that is not JSON), a transport that fails with
  a message of 201 characters, a server that is down (status 503, a body of 250
  characters), and a REST transport that cannot connect.
\<close>

definition redirect_world :: "(unit payload, unit gql_body) world" where
  "redirect_world =
     \<lparr>clock = (\<lambda>k. 0),
      transport = (\<lambda>k q. Response \<lparr>status_code = 302, retry_after_header = None,
                     text_body = ''moved'', json = Inl ''Expecting value''\<rparr>)\<rparr>"

definition failing_world :: "(unit payload, unit gql_body) world" where
  "failing_world = \<lparr>clock = (\<lambda>k. 0), transport = (\<lambda>k q. RequestError (replicate 201 CHR ''x''))\<rparr>"

definition down_response :: "unit gql_body response" where
  "down_response =
     \<lparr>status_code = 503, retry_after_header = None, text_body = replicate 250 CHR ''x'',
      json = Inl ''Expecting value''\<rparr>"

definition down_world :: "(unit payload, unit gql_body) world" where
  "down_world = \<lparr>clock = (\<lambda>k. 0), transport = (\<lambda>k q. Response down_response)\<rparr>"

definition refusing_rest_world :: "(unit rest_request, unit rest_body) world" where
  "refusing_rest_world = \<lparr>clock = (\<lambda>k. 0), transport = (\<lambda>k q. RequestError ''connection refused'')\<rparr>"





text \<open>
  A project search of three projects in pages of two, as the REST API answers it: the page
  at offset 0 holds A (software) and B (business) and is not the last, the page at offset
  2 holds C (software) and is the last. The response body is the parsed page.
\<close>

definition first_page :: page_bean_project where
  "first_page =
     \<lparr>total = Some 3, is_last = Some False,
      values = [RestProject (Some ''A'') (Some '' Project A '') (Some ''software''),
                RestProject (Some ''B'') (Some ''Project B'') (Some ''business'')]\<rparr>"

definition last_page :: page_bean_project where
  "last_page =
     \<lparr>total = Some 3, is_last = Some True,
      values = [RestProject (Some ''C'') (Some ''Project C'') (Some ''software'')]\<rparr>"

definition page_response :: "page_bean_project \<Rightarrow> page_bean_project rest_body response" where
  "page_response page =
     \<lparr>status_code = 200, retry_after_header = None, text_body = [], json = Inr (Object page)\<rparr>"

definition search_world :: "(rest_params rest_request, page_bean_project rest_body) world" where
  "search_world =
     \<lparr>clock = (\<lambda>k. 0),
      transport = (\<lambda>k q.
         if params q = Some (ProjectSearch 0 2) then Response (page_response first_page)
         else if params q = Some (ProjectSearch 2 2) then Response (page_response last_page)
         else RequestError ''unexpected startAt'')\<rparr>"

definition rest_env :: "(rest_params rest_request, canonical_project) env" where
  "rest_env = new_env False 0"

definition project_search :: "int \<Rightarrow> rest_params rest_request" where
  "project_search start_at =
     \<lparr>url_path = ''/rest/api/3/project/search'', params = Some (ProjectSearch start_at 2)\<rparr>"

definition project_A :: canonical_project where
  "project_A = CanonicalProjectWithOpsgenieTeams
                 (JiraProject ''cloud-123'' ''A'' ''Project A'' (Some ''SOFTWARE'')) []"

definition project_C :: canonical_project where
  "project_C = CanonicalProjectWithOpsgenieTeams
                 (JiraProject ''cloud-123'' ''C'' ''Project C'' (Some ''SOFTWARE'')) []"

definition empty_not_last :: page_bean_project where
  "empty_not_last = \<lparr>total = Some 3, is_last = Some False, values = []\<rparr>"

lemma search_run:
  "iter_projects_via_rest 5 (GraphQLClient 2 60 False) search_world no_parse Inr ''cloud-123''
       [''SOFTWARE''] 2 rest_env
     = Some (Inr (), \<lparr>ticks = 0,
               trace = [HeadersBuilt, Sent (project_search 0), Yielded project_A,
                        HeadersBuilt, Sent (project_search 2), Yielded project_C],
               bucket = None\<rparr>)"
  by code_simp

definition after_first_page :: "(rest_params rest_request, canonical_project) env" where
  "after_first_page = \<lparr>ticks = 0, trace = [HeadersBuilt, Sent (project_search 0)], bucket = None\<rparr>"

text \<open>
  Scenarios of cursor pagination. The decoded data of a response is the parsed page itself:
  a page of projects or a page of teams.
\<close>

datatype page_data =
    ProjectsData "jira_project_node connection"
  | TeamsData "opsgenie_team_node connection"

definition scenario_api :: "page_data api" where
  "scenario_api =
     \<lparr>PAGEINFO_HAS_END_CURSOR = True, PROJECTS_EDGE_HAS_CURSOR = True,
      OPSGENIE_EDGE_HAS_CURSOR = True, REFETCH_STRATEGY = ''node'',
      JIRA_PROJECT_OPSGENIE_TEAMS_PAGE_QUERY = ''query JiraProjectOpsgenieTeamsPage'',
      build_jira_projects_page_query = (\<lambda>types. Inr ''query JiraProjectsPage''),
      parse_jira_projects_page =
        (\<lambda>d. case d of ProjectsData conn \<Rightarrow> Inr conn
              | TeamsData conn \<Rightarrow> Inl (SerializationError ''Missing data.jira'')),
      parse_project_opsgenie_teams =
        (\<lambda>d. case d of TeamsData conn \<Rightarrow> Inr conn
              | ProjectsData conn \<Rightarrow> Inl (SerializationError ''Missing data.project''))\<rparr>"

definition data_response :: "page_data \<Rightarrow> page_data gql_body response" where
  "data_response d =
     \<lparr>status_code = 200, retry_after_header = None, text_body = [],
      json = Inr (Dict (Some d) None None)\<rparr>"

definition projects_request :: "string option \<Rightarrow> variables payload" where
  "projects_request after =
     \<lparr>query = ''query JiraProjectsPage'',
      variables = Some (ProjectsPage ''cloud-123'' 50 after 50),
      operationName = Some ''JiraProjectsPage''\<rparr>"

definition teams_request :: "string \<Rightarrow> string \<Rightarrow> variables payload" where
  "teams_request pid after =
     \<lparr>query = ''query JiraProjectOpsgenieTeamsPage'',
      variables = Some (TeamsPageOfNode pid 50 after),
      operationName = Some ''JiraProjectOpsgenieTeamsPage''\<rparr>"

definition cursor_env :: "(variables payload, canonical_project) env" where
  "cursor_env = new_env False 0"

text \<open>A server whose every page of projects is empty and points to the cursor P1.\<close>

definition looping_page :: "jira_project_node connection" where
  "looping_page = \<lparr>page_info = \<lparr>has_next_page = True, end_cursor = Some ''P1''\<rparr>, edges = []\<rparr>"

definition looping_world :: "(variables payload, page_data gql_body) world" where
  "looping_world =
     \<lparr>clock = (\<lambda>k. 0), transport = (\<lambda>k q. Response (data_response (ProjectsData looping_page)))\<rparr>"

definition looped_once :: "(variables payload, canonical_project) env" where
  "looped_once = \<lparr>ticks = 0, trace = [HeadersBuilt, Sent (projects_request None)], bucket = None\<rparr>"

definition looped_twice :: "(variables payload, canonical_project) env" where
  "looped_twice =
     \<lparr>ticks = 0,
      trace = [HeadersBuilt, Sent (projects_request None),
               HeadersBuilt, Sent (projects_request (Some ''P1''))],
      bucket = None\<rparr>"

lemma looping_run:
  "iter_projects_with_opsgenie_linkable_teams 9 (GraphQLClient 2 60 False) looping_world no_parse
       scenario_api ''cloud-123'' [''SOFTWARE''] 50 cursor_env
     = Some (Inl (SerializationError
               ''Pagination cursor repeated; aborting to prevent infinite loop''), looped_twice)"
  by code_simp

text \<open>A server whose every page of teams is empty and points to the cursor TA1.\<close>

definition looping_teams :: "opsgenie_team_node connection" where
  "looping_teams = \<lparr>page_info = \<lparr>has_next_page = True, end_cursor = Some ''TA1''\<rparr>, edges = []\<rparr>"

definition looping_teams_world :: "(variables payload, page_data gql_body) world" where
  "looping_teams_world =
     \<lparr>clock = (\<lambda>k. 0), transport = (\<lambda>k q. Response (data_response (TeamsData looping_teams)))\<rparr>"

definition project_node_A :: jira_project_node where
  "project_node_A = JiraProjectNode (Some ''projA'') ''A'' ''Project A'' looping_teams"

definition teams_looped :: "(variables payload, canonical_project) env" where
  "teams_looped =
     \<lparr>ticks = 0, trace = [HeadersBuilt, Sent (teams_request ''projA'' ''TA1'')], bucket = None\<rparr>"

text \<open>
  The two-level scenario: the first page of projects holds A, whose first page of teams
  (Team 1, Team 2) has a next page behind the cursor TA1, and B, which has no teams, and
  points to the cursor P1; the page of teams behind TA1 holds Team 3 and is the last;
  the page of projects behind P1 holds C with Team 4 and is the last.
\<close>

definition node_A :: jira_project_node where
  "node_A = JiraProjectNode (Some ''projA'') ''A'' ''Project A''
     \<lparr>page_info = \<lparr>has_next_page = True, end_cursor = Some ''TA1''\<rparr>,
      edges = [Edge (Some ''tc1'') (OpsgenieTeamNode ''t1'' ''Team 1''),
               Edge (Some ''tc2'') (OpsgenieTeamNode ''t2'' ''Team 2'')]\<rparr>"

definition node_B :: jira_project_node where
  "node_B = JiraProjectNode (Some ''projB'') ''B'' ''Project B''
     \<lparr>page_info = \<lparr>has_next_page = False, end_cursor = None\<rparr>, edges = []\<rparr>"

definition node_C :: jira_project_node where
  "node_C = JiraProjectNode (Some ''projC'') ''C'' ''Project C''
     \<lparr>page_info = \<lparr>has_next_page = False, end_cursor = None\<rparr>,
      edges = [Edge (Some ''tc4'') (OpsgenieTeamNode ''t4'' ''Team 4'')]\<rparr>"

definition outer_page_1 :: "jira_project_node connection" where
  "outer_page_1 =
     \<lparr>page_info = \<lparr>has_next_page = True, end_cursor = Some ''P1''\<rparr>,
      edges = [Edge (Some ''pc1'') node_A, Edge (Some ''pc2'') node_B]\<rparr>"

definition outer_page_2 :: "jira_project_node connection" where
  "outer_page_2 =
     \<lparr>page_info = \<lparr>has_next_page = False, end_cursor = None\<rparr>,
      edges = [Edge (Some ''pc3'') node_C]\<rparr>"

definition teams_page_2 :: "opsgenie_team_node connection" where
  "teams_page_2 =
     \<lparr>page_info = \<lparr>has_next_page = False, end_cursor = None\<rparr>,
      edges = [Edge (Some ''tc3'') (OpsgenieTeamNode ''t3'' ''Team 3'')]\<rparr>"

definition nested_world :: "(variables payload, page_data gql_body) world" where
  "nested_world =
     \<lparr>clock = (\<lambda>k. 0),
      transport = (\<lambda>k q.
         case variables q of
           Some (ProjectsPage cloud n after m) \<Rightarrow>
             if after = None then Response (data_response (ProjectsData outer_page_1))
             else if after = Some ''P1'' then Response (data_response (ProjectsData outer_page_2))
             else RequestError ''unexpected after cursor''
         | Some (TeamsPageOfNode pid n after) \<Rightarrow>
             if pid = ''projA'' \<and> after = ''TA1''
             then Response (data_response (TeamsData teams_page_2))
             else RequestError ''unexpected opsgenie after''
         | _ \<Rightarrow> RequestError ''unexpected operation'')\<rparr>"

definition record_A :: canonical_project where
  "record_A = CanonicalProjectWithOpsgenieTeams (JiraProject ''cloud-123'' ''A'' ''Project A'' None)
     [OpsgenieTeamRef ''t1'' ''Team 1'', OpsgenieTeamRef ''t2'' ''Team 2'',
      OpsgenieTeamRef ''t3'' ''Team 3'']"

definition record_B :: canonical_project where
  "record_B = CanonicalProjectWithOpsgenieTeams (JiraProject ''cloud-123'' ''B'' ''Project B'' None) []"

definition record_C :: canonical_project where
  "record_C = CanonicalProjectWithOpsgenieTeams (JiraProject ''cloud-123'' ''C'' ''Project C'' None)
     [OpsgenieTeamRef ''t4'' ''Team 4'']"

definition after_outer_1 :: "(variables payload, canonical_project) env" where
  "after_outer_1 = \<lparr>ticks = 0, trace = [HeadersBuilt, Sent (projects_request None)], bucket = None\<rparr>"

definition after_nested :: "(variables payload, canonical_project) env" where
  "after_nested =
     \<lparr>ticks = 0,
      trace = [HeadersBuilt, Sent (projects_request None),
               HeadersBuilt, Sent (teams_request ''projA'' ''TA1'')],
      bucket = None\<rparr>"

definition after_page_1 :: "(variables payload, canonical_project) env" where
  "after_page_1 =
     \<lparr>ticks = 0,
      trace = [HeadersBuilt, Sent (projects_request None),
               HeadersBuilt, Sent (teams_request ''projA'' ''TA1''),
               Yielded record_A, Yielded record_B],
      bucket = None\<rparr>"

definition after_page_2 :: "(variables payload, canonical_project) env" where
  "after_page_2 =
     \<lparr>ticks = 0,
      trace = [HeadersBuilt, Sent (projects_request None),
               HeadersBuilt, Sent (teams_request ''projA'' ''TA1''),
               Yielded record_A, Yielded record_B,
               HeadersBuilt, Sent (projects_request (Some ''P1'')),
               Yielded record_C],
      bucket = None\<rparr>"

lemma nested_run:
  "iter_projects_with_opsgenie_linkable_teams 9 (GraphQLClient 2 60 False) nested_world no_parse
       scenario_api ''cloud-123'' [''SOFTWARE''] 50 cursor_env
     = Some (Inr (), after_page_2)"
  by code_simp











text \<open>
  Servers whose every page of projects, respectively of teams, is empty and has a next
  page but no cursor, and the state after one request for the teams behind the cursor TA0.
\<close>

definition cursorless_page :: "jira_project_node connection" where
  "cursorless_page = \<lparr>page_info = \<lparr>has_next_page = True, end_cursor = None\<rparr>, edges = []\<rparr>"

definition cursorless_world :: "(variables payload, page_data gql_body) world" where
  "cursorless_world =
     \<lparr>clock = (\<lambda>k. 0), transport = (\<lambda>k q. Response (data_response (ProjectsData cursorless_page)))\<rparr>"

definition cursorless_teams :: "opsgenie_team_node connection" where
  "cursorless_teams = \<lparr>page_info = \<lparr>has_next_page = True, end_cursor = None\<rparr>, edges = []\<rparr>"

definition cursorless_teams_world :: "(variables payload, page_data gql_body) world" where
  "cursorless_teams_world =
     \<lparr>clock = (\<lambda>k. 0), transport = (\<lambda>k q. Response (data_response (TeamsData cursorless_teams)))\<rparr>"

definition teams_asked :: "(variables payload, canonical_project) env" where
  "teams_asked =
     \<lparr>ticks = 0, trace = [HeadersBuilt, Sent (teams_request ''projA'' ''TA0'')], bucket = None\<rparr>"

definition after_outer_2 :: "(variables payload, canonical_project) env" where
  "after_outer_2 =
     \<lparr>ticks = 0,
      trace = [HeadersBuilt, Sent (projects_request None),
               HeadersBuilt, Sent (teams_request ''projA'' ''TA1''),
               Yielded record_A, Yielded record_B,
               HeadersBuilt, Sent (projects_request (Some ''P1''))],
      bucket = None\<rparr>"

text \<open>
  An empty page whose is-last flag is false and which has no total, and a server that
  answers every project search with it.
\<close>

definition empty_flagged :: page_bean_project where
  "empty_flagged = \<lparr>total = None, is_last = Some False, values = []\<rparr>"

definition flagged_world :: "(rest_params rest_request, page_bean_project rest_body) world" where
  "flagged_world =
     \<lparr>clock = (\<lambda>k. 0), transport = (\<lambda>k q. Response (page_response empty_flagged))\<rparr>"

text \<open>A server that answers every issue search with a page of one issue out of one.\<close>

definition issue_page :: "unit search_results" where
  "issue_page = \<lparr>issues_total = Some 1, issues = [()]\<rparr>"

definition issue_world :: "(rest_params rest_request, unit search_results rest_body) world" where
  "issue_world =
     \<lparr>clock = (\<lambda>k. 0),
      transport = (\<lambda>k q. Response \<lparr>status_code = 200, retry_after_header = None, text_body = [],
                                   json = Inr (Object issue_page)\<rparr>)\<rparr>"

definition issue_env :: "(rest_params rest_request, unit) env" where
  "issue_env = new_env False 0"

definition issue_search :: "rest_params rest_request" where
  "issue_search =
     \<lparr>url_path = ''/rest/api/3/search'', params = Some (IssueSearch ''project = A'' 0 2 ''status'')\<rparr>"

section \<open>Properties\<close>

text \<open>
  C10. For every call of \<^verbatim>\<open>GraphQLClient.execute\<close> the cost handed to the local throttle is
  normalised: an estimated cost of \<open>None\<close> counts as 1, a negative one as 0, any other is
  kept; and every call of the token bucket that the execution makes asks for exactly this
  normalised cost, which is never negative. The events of the execution are those after
  the trace it started with.
\<close>

theorem execute_cost_normalized:
  "cost_value None = 1
   \<and> (\<forall>n. n < 0 \<longrightarrow> cost_value (Some n) = 0)
   \<and> (\<forall>n. 0 \<le> n \<longrightarrow> cost_value (Some n) = n)
   \<and> (\<forall>x \<in> set (throttled (drop (length (trace e))
                 (trace (snd (execute c w p q vars opn est e))))).
         fst x = of_int (cost_value est) \<and> 0 \<le> fst x)"
proof -
  obtain r e' where ex: "execute c w p q vars opn est e = (r, e')" by force
  from execute_trace [OF ex] obtain evs where
    evs: "trace e' = trace e @ evs"
         "set (throttled evs) \<subseteq> {(of_int (cost_value est), of_int (max_wait_seconds c))}"
    by blast
  have nonneg: "0 \<le> cost_value est"
    by (simp add: cost_value_def Let_def split: option.splits)
  have calls: "\<forall>x \<in> set (throttled (drop (length (trace e))
                 (trace (snd (execute c w p q vars opn est e))))).
         fst x = of_int (cost_value est) \<and> 0 \<le> fst x"
    using evs nonneg ex by auto
  have none: "cost_value None = 1"
    by (simp add: cost_value_def)
  have neg: "\<forall>n. n < 0 \<longrightarrow> cost_value (Some n) = 0"
    by (simp add: cost_value_def)
  have pos: "\<forall>n. 0 \<le> n \<longrightarrow> cost_value (Some n) = n"
    by (simp add: cost_value_def)
  from none neg pos calls show ?thesis by blast
qed

theorem execute_cost_normalized_witness:
  "(0, 60) \<in> set (throttled (drop (length (trace throttling_env))
       (trace (snd (execute (GraphQLClient 2 60 False) ok_world no_parse ''q'' None None
                      (Some (- 3)) throttling_env)))))
   \<and> (- 3 :: int) < 0 \<and> cost_value (Some (- 3)) = 0
   \<and> fst (0 :: rat, 60 :: rat) = of_int (cost_value (Some (- 3)))"
proof -
  have run: "trace (snd (execute (GraphQLClient 2 60 False) ok_world no_parse ''q'' None None
                      (Some (- 3)) throttling_env))
             = [Throttled 0 60, HeadersBuilt,
                Sent \<lparr>query = ''q'', variables = None, operationName = None\<rparr>]"
    by code_simp
  have len: "length (trace throttling_env) = 0"
    by (simp add: throttling_env_def new_env_def)
  have mem: "(0, 60) \<in> set (throttled (drop (length (trace throttling_env))
       (trace (snd (execute (GraphQLClient 2 60 False) ok_world no_parse ''q'' None None
                      (Some (- 3)) throttling_env)))))"
    by (simp add: len run)
  from execute_cost_normalized [of throttling_env
      "GraphQLClient 2 60 False" ok_world no_parse "''q''" None None "Some (- 3)"]
  show ?thesis using mem by auto
qed



text \<open>
  C7, as amended. For every 429 response whose \<^verbatim>\<open>Retry-After\<close> header does not parse, the
  call fails in that same attempt, with no sleep and no further request (the state is the
  one right after the exchange), raising a \<^verbatim>\<open>RateLimitError\<close> with \<^verbatim>\<open>retry_after=None\<close>, the
  attempt number, no wait and no ceiling, and with \<^verbatim>\<open>header_value\<close> the header as received
  (which is \<open>None\<close> only when the header is missing). In \<^verbatim>\<open>get_json\<close> a header does not
  parse when it is missing, blank, made of digits that \<^verbatim>\<open>int()\<close> rejects, or rejected by
  \<^verbatim>\<open>parse_retry_after\<close>; in \<^verbatim>\<open>execute\<close> when \<^verbatim>\<open>parse_retry_after\<close> rejects it, which the
  parser of the specification does for a missing header, a blank one, and one that is
  neither decimal digits nor an ISO-8601 instant. No other kind of error comes out.
\<close>

theorem malformed_retry_after:
  "(consume_local_budget c w cost e = (Inr u, e1)
      \<and> exchange w pl (emit HeadersBuilt e1) = (Response r, e2) \<and> status_code r = 429
      \<and> parse (retry_after_header r) = None
    \<longrightarrow> execute_loop c w parse pl cost retries e =
          (Inl (RateLimitError None (retries + 1) (retry_after_header r) None None), e2))
   \<and> (exchange w' rq (emit HeadersBuilt e') = (Response r', e2') \<and> status_code r' = 429
      \<and> (retry_after_header r' = None
          \<or> (\<exists>s. retry_after_header r' = Some s \<and> (strip s = []
                \<or> (isdigit (strip s) \<and> int_of_string (strip s) = None)
                \<or> (\<not> isdigit (strip s) \<and> parse (Some (strip s)) = None))))
    \<longrightarrow> get_json_loop c w' parse rq retries' e' =
          (Inl (RateLimitError None (retries' + 1) (retry_after_header r') None None), e2'))
   \<and> parse_retry_after t read_iso None = None
   \<and> (strip h = [] \<longrightarrow> parse_retry_after t read_iso (Some h) = None)
   \<and> (int_of_string (strip h) = None \<and> read_iso (strip h) = None
        \<longrightarrow> parse_retry_after t read_iso (Some h) = None)"
proof (intro conjI impI; (elim conjE)?)
  assume h: "consume_local_budget c w cost e = (Inr u, e1)"
    "exchange w pl (emit HeadersBuilt e1) = (Response r, e2)" "status_code r = 429"
    "parse (retry_after_header r) = None"
  show "execute_loop c w parse pl cost retries e =
          (Inl (RateLimitError None (retries + 1) (retry_after_header r) None None), e2)"
    using attempt_429 [OF h(1-3), of parse retries] h(4)
    by (intro execute_loop_Raise) (simp add: on_429_unparsed raised_def)
next
  assume h: "exchange w' rq (emit HeadersBuilt e') = (Response r', e2')" "status_code r' = 429"
    "retry_after_header r' = None
          \<or> (\<exists>s. retry_after_header r' = Some s \<and> (strip s = []
                \<or> (isdigit (strip s) \<and> int_of_string (strip s) = None)
                \<or> (\<not> isdigit (strip s) \<and> parse (Some (strip s)) = None)))"
  show "get_json_loop c w' parse rq retries' e' =
          (Inl (RateLimitError None (retries' + 1) (retry_after_header r') None None), e2')"
    using rest_attempt_429 [OF h(1-2), of c parse retries'] rest_parse_retry_after_None [OF h(3), of w' e2']
    by (intro get_json_loop_Raise) (simp add: on_429_unparsed)
qed (auto simp: parse_retry_after_def Let_def)

text \<open>
  C7 as stated fails: a 429 with \<^verbatim>\<open>Retry-After: invalid\<close> raises a \<^verbatim>\<open>RateLimitError\<close> whose
  \<^verbatim>\<open>header_value\<close> is \<^verbatim>\<open>"invalid"\<close>, not \<open>None\<close>.
\<close>

theorem malformed_retry_after_counterexample:
  "execute (GraphQLClient 0 60 False) invalid_world (parse_retry_after 0 (\<lambda>s. None))
       ''query { ok }'' None None (Some 1) plain_env
     = (Inl (RateLimitError None 1 (Some ''invalid'') None None), after_exchange 0)
   \<and> \<not> (\<exists>retry_after attempts wait_seconds max_wait.
          fst (execute (GraphQLClient 0 60 False) invalid_world (parse_retry_after 0 (\<lambda>s. None))
                 ''query { ok }'' None None (Some 1) plain_env)
            = Inl (RateLimitError retry_after attempts None wait_seconds max_wait))"
proof -
  have run: "execute (GraphQLClient 0 60 False) invalid_world (parse_retry_after 0 (\<lambda>s. None))
       ''query { ok }'' None None (Some 1) plain_env
     = (Inl (RateLimitError None 1 (Some ''invalid'') None None), after_exchange 0)"
    by code_simp
  show ?thesis unfolding run by simp
qed

theorem malformed_retry_after_witness:
  "execute_loop (GraphQLClient 2 60 False) invalid_world (parse_retry_after 0 (\<lambda>s. None))
       ok_query 1 0 plain_env
     = (Inl (RateLimitError None 1 (Some ''invalid'') None None), after_exchange 0)
   \<and> get_json_loop (GraphQLClient 2 60 False) vague_rest_world no_parse search_request 0
       plain_rest_env
     = (Inl (RateLimitError None 1 (Some ''soon'') None None), after_rest_exchange 0)
   \<and> parse_retry_after 0 (\<lambda>s. None) (Some ''invalid'') = None"
proof -
  have g: "consume_local_budget (GraphQLClient 2 60 False) invalid_world 1 plain_env = (Inr (), plain_env)"
    "exchange invalid_world ok_query (emit HeadersBuilt plain_env)
       = (Response invalid_response, after_exchange 0)"
    "status_code invalid_response = 429"
    "retry_after_header invalid_response = Some ''invalid''"
    "parse_retry_after 0 (\<lambda>s. None) (Some ''invalid'') = None"
        apply (simp add: consume_local_budget_def plain_env_def new_env_def)
       apply (simp add: exchange_def invalid_world_def invalid_response_def plain_env_def
                new_env_def emit_def after_exchange_def)
      apply (simp add: invalid_response_def)
     apply (simp add: invalid_response_def)
    apply code_simp
    done
  have r: "exchange vague_rest_world search_request (emit HeadersBuilt plain_rest_env)
       = (Response vague_rest_response, after_rest_exchange 0)"
    "status_code vague_rest_response = 429"
    "retry_after_header vague_rest_response = Some ''soon''"
    "strip ''soon'' = ''soon''" "\<not> isdigit ''soon''" "no_parse (Some ''soon'') = None"
         apply (simp add: exchange_def vague_rest_world_def plain_rest_env_def
                  new_env_def emit_def after_rest_exchange_def)
        apply (simp add: vague_rest_response_def)
       apply (simp add: vague_rest_response_def)
      apply code_simp
     apply code_simp
    apply (simp add: no_parse_def)
    done
  note m = malformed_retry_after [where c = "GraphQLClient 2 60 False" and w = invalid_world
      and cost = 1 and e = plain_env and u = "()" and ?e1.0 = plain_env and pl = ok_query
      and r = invalid_response and ?e2.0 = "after_exchange 0"
      and parse = "parse_retry_after 0 (\<lambda>s. None)" and retries = 0
      and t = 0 and read_iso = "\<lambda>s. None" and h = "''invalid''", THEN conjunct1]
  note n = malformed_retry_after [where c = "GraphQLClient 2 60 False" and w' = vague_rest_world
      and rq = search_request and e' = plain_rest_env and r' = vague_rest_response
      and ?e2' = "after_rest_exchange 0" and parse = no_parse and retries' = 0,
      THEN conjunct2, THEN conjunct1]
  have a: "execute_loop (GraphQLClient 2 60 False) invalid_world (parse_retry_after 0 (\<lambda>s. None))
       ok_query 1 0 plain_env
     = (Inl (RateLimitError None 1 (Some ''invalid'') None None), after_exchange 0)"
    using m g by simp
  have b: "get_json_loop (GraphQLClient 2 60 False) vague_rest_world no_parse search_request 0
       plain_rest_env
     = (Inl (RateLimitError None 1 (Some ''soon'') None None), after_rest_exchange 0)"
    using n r by simp
  from a b g(5) show ?thesis by blast
qed

text \<open>
  C8, as amended. For every HTTP exchange whose response status is at least 400 and not
  429, the call fails in that same attempt with a \<^verbatim>\<open>TransportError\<close> carrying the status
  code and the first 200 characters of the body, and for every transport-level failure
  with a \<^verbatim>\<open>TransportError\<close> carrying status 0 and the message of the failure; in both cases
  there is no retry (the state is the one right after the exchange). In \<^verbatim>\<open>execute\<close> this is
  after the local throttle has admitted the attempt.
\<close>

theorem transport_error_no_retry:
  "(consume_local_budget c w cost e = (Inr u, e1) \<longrightarrow>
      (exchange w pl (emit HeadersBuilt e1) = (RequestError msg, e2)
         \<longrightarrow> execute_loop c w parse pl cost retries e = (Inl (TransportError 0 msg), e2))
    \<and> (exchange w pl (emit HeadersBuilt e1) = (Response r, e2)
          \<and> 400 \<le> status_code r \<and> status_code r \<noteq> 429
         \<longrightarrow> execute_loop c w parse pl cost retries e =
               (Inl (TransportError (status_code r) (take 200 (text_body r))), e2)
             \<and> length (take 200 (text_body r)) \<le> 200))
   \<and> (exchange w' rq (emit HeadersBuilt e') = (RequestError msg', e2')
         \<longrightarrow> get_json_loop c w' parse rq retries' e' = (Inl (TransportError 0 msg'), e2'))
   \<and> (exchange w' rq (emit HeadersBuilt e') = (Response r', e2')
          \<and> 400 \<le> status_code r' \<and> status_code r' \<noteq> 429
         \<longrightarrow> get_json_loop c w' parse rq retries' e' =
               (Inl (TransportError (status_code r') (take 200 (text_body r'))), e2')
             \<and> length (take 200 (text_body r')) \<le> 200)"
proof -
  have a: "execute_loop c w parse pl cost retries e = (Inl (TransportError 0 msg), e2)"
    if "consume_local_budget c w cost e = (Inr u, e1)"
      "exchange w pl (emit HeadersBuilt e1) = (RequestError msg, e2)"
    using that by (intro execute_loop_Raise) (simp add: attempt_def)
  have b: "execute_loop c w parse pl cost retries e =
               (Inl (TransportError (status_code r) (take 200 (text_body r))), e2)"
    if "consume_local_budget c w cost e = (Inr u, e1)"
      "exchange w pl (emit HeadersBuilt e1) = (Response r, e2)"
      "400 \<le> status_code r" "status_code r \<noteq> 429"
    using that by (intro execute_loop_Raise) (simp add: attempt_def)
  have c: "get_json_loop c w' parse rq retries' e' = (Inl (TransportError 0 msg'), e2')"
    if "exchange w' rq (emit HeadersBuilt e') = (RequestError msg', e2')"
    using that by (intro get_json_loop_Raise) (simp add: rest_attempt_def)
  have d: "get_json_loop c w' parse rq retries' e' =
               (Inl (TransportError (status_code r') (take 200 (text_body r'))), e2')"
    if "exchange w' rq (emit HeadersBuilt e') = (Response r', e2')"
      "400 \<le> status_code r'" "status_code r' \<noteq> 429"
    using that by (intro get_json_loop_Raise) (simp add: rest_attempt_def)
  from a b c d show ?thesis by simp
qed

text \<open>
  C8 as stated fails: a response with status 302, which is neither 2xx nor 429, is not a
  \<^verbatim>\<open>TransportError\<close> (its body is decoded as for a 200); and the snippet of a transport-level
  failure is the whole message, here 201 characters.
\<close>

theorem transport_error_no_retry_counterexample:
  "execute (GraphQLClient 2 60 False) redirect_world no_parse ''query { ok }'' None None (Some 1)
       plain_env
     = (Inl (SerializationError ''Failed to parse JSON: Expecting value''), after_exchange 0)
   \<and> \<not> (200 \<le> (302 :: int) \<and> (302 :: int) < 300) \<and> (302 :: int) \<noteq> 429
   \<and> execute (GraphQLClient 2 60 False) failing_world no_parse ''query { ok }'' None None (Some 1)
       plain_env
     = (Inl (TransportError 0 (replicate 201 CHR ''x'')), after_exchange 0)
   \<and> \<not> length (replicate 201 CHR ''x'') \<le> 200"
proof -
  have a: "execute (GraphQLClient 2 60 False) redirect_world no_parse ''query { ok }'' None None (Some 1)
       plain_env
     = (Inl (SerializationError ''Failed to parse JSON: Expecting value''), after_exchange 0)"
    by code_simp
  have b: "execute (GraphQLClient 2 60 False) failing_world no_parse ''query { ok }'' None None (Some 1)
       plain_env
     = (Inl (TransportError 0 (replicate 201 CHR ''x'')), after_exchange 0)"
    by code_simp
  from a b show ?thesis by simp
qed

theorem transport_error_no_retry_witness:
  "execute_loop (GraphQLClient 2 60 False) down_world no_parse ok_query 1 0 plain_env
     = (Inl (TransportError 503 (replicate 200 CHR ''x'')), after_exchange 0)
   \<and> get_json_loop (GraphQLClient 2 60 False) refusing_rest_world no_parse search_request 0
        plain_rest_env
     = (Inl (TransportError 0 ''connection refused''), after_rest_exchange 0)"
proof -
  have g: "consume_local_budget (GraphQLClient 2 60 False) down_world 1 plain_env = (Inr (), plain_env)"
    "exchange down_world ok_query (emit HeadersBuilt plain_env)
       = (Response down_response, after_exchange 0)"
    "status_code down_response = 503"
    "take 200 (text_body down_response) = replicate 200 CHR ''x''"
       apply (simp add: consume_local_budget_def plain_env_def new_env_def)
      apply (simp add: exchange_def down_world_def plain_env_def new_env_def emit_def after_exchange_def)
     apply (simp add: down_response_def)
    apply (simp add: down_response_def)
    done
  have r: "exchange refusing_rest_world search_request (emit HeadersBuilt plain_rest_env)
       = (RequestError ''connection refused'', after_rest_exchange 0)"
    by (simp add: exchange_def refusing_rest_world_def plain_rest_env_def
          new_env_def emit_def after_rest_exchange_def)
  note m = transport_error_no_retry [where c = "GraphQLClient 2 60 False" and w = down_world
      and cost = 1 and e = plain_env and u = "()" and ?e1.0 = plain_env and pl = ok_query
      and r = down_response and ?e2.0 = "after_exchange 0" and parse = no_parse and retries = 0,
      THEN conjunct1]
  note n = transport_error_no_retry [where c = "GraphQLClient 2 60 False"
      and w' = refusing_rest_world and rq = search_request and e' = plain_rest_env
      and msg' = "''connection refused''" and ?e2' = "after_rest_exchange 0"
      and parse = no_parse and retries' = 0, THEN conjunct2, THEN conjunct1]
  have a: "execute_loop (GraphQLClient 2 60 False) down_world no_parse ok_query 1 0 plain_env
     = (Inl (TransportError 503 (replicate 200 CHR ''x'')), after_exchange 0)"
    using m g by simp
  have b: "get_json_loop (GraphQLClient 2 60 False) refusing_rest_world no_parse search_request 0
        plain_rest_env
     = (Inl (TransportError 0 ''connection refused''), after_rest_exchange 0)"
    using n r by simp
  from a b show ?thesis by blast
qed








text \<open>
  C6. At either pagination level the next cursor is selected by \<^verbatim>\<open>_next_after_from_pageinfo\<close>:
  when \<^verbatim>\<open>has_next_page\<close> is false it returns \<^verbatim>\<open>None\<close>, whatever cursors are present; otherwise
  it returns \<^verbatim>\<open>end_cursor\<close> when the schema exposes it and it is not empty; otherwise, when
  the edges of the schema carry cursors, the last non-empty cursor of an edge; and when
  neither is available it fails with a \<^verbatim>\<open>SerializationError\<close>. The loops follow that
  result: for a page that was fetched, parsed and (in the outer loop) yielded, the outer
  loop, the nested loop, and the nested paginator on the connection embedded in the
  project, stop normally on \<^verbatim>\<open>None\<close> without a further request, go on with the selected
  cursor as the next \<^verbatim>\<open>after\<close> when it is new, and fail with the function's error.
\<close>

theorem next_cursor_selection:
  "(\<not> has_next \<longrightarrow>
      next_after_from_pageinfo exposes_end has_next end_cur edge_has cs path = Inr None)
   \<and> (has_next \<and> exposes_end \<and> end_cur = Some c \<and> c \<noteq> [] \<longrightarrow>
      next_after_from_pageinfo exposes_end has_next end_cur edge_has cs path = Inr (Some c))
   \<and> (has_next \<and> \<not> (exposes_end \<and> truthy end_cur) \<and> edge_has
        \<and> cs = before @ [Some c] @ rest \<and> c \<noteq> [] \<and> (\<forall>x \<in> set rest. \<not> truthy x) \<longrightarrow>
      next_after_from_pageinfo exposes_end has_next end_cur edge_has cs path = Inr (Some c))
   \<and> (has_next \<and> \<not> (exposes_end \<and> truthy end_cur)
        \<and> (\<not> edge_has \<or> (\<forall>x \<in> set cs. \<not> truthy x)) \<longrightarrow>
      next_after_from_pageinfo exposes_end has_next end_cur edge_has cs path
        = Inl (SerializationError (''Pagination cursor missing for '' @ path)))
   \<and> (execute cl w parse q (Some (ProjectsPage cloud page_size after page_size))
          (Some ''JiraProjectsPage'') (Some 1) e = (Inr result, e1)
        \<and> data result = Some d \<and> parse_jira_projects_page a d = Inr conn
        \<and> yield_edges (Suc fuel) cl w parse a cloud page_size (edges conn) e1 = Some (Inr (), e2)
        \<and> nxt = next_after_from_pageinfo (PAGEINFO_HAS_END_CURSOR a)
                  (has_next_page (page_info conn)) (end_cursor (page_info conn))
                  (PROJECTS_EDGE_HAS_CURSOR a) (map cursor (edges conn)) ''jira.projects''
      \<longrightarrow>
        (nxt = Inr None \<longrightarrow>
           projects_loop (Suc fuel) cl w parse a cloud page_size q after seen e = Some (Inr (), e2))
      \<and> (nxt = Inr (Some nc) \<and> nc \<notin> seen \<longrightarrow>
           projects_loop (Suc fuel) cl w parse a cloud page_size q after seen e
             = projects_loop fuel cl w parse a cloud page_size q (Some nc) (insert nc seen) e2)
      \<and> (nxt = Inl err \<longrightarrow>
           projects_loop (Suc fuel) cl w parse a cloud page_size q after seen e
             = Some (Inl err, e2)))
   \<and> (teams_page_variables a cloud p page_size tafter = Inr vars
        \<and> execute cl w parse (JIRA_PROJECT_OPSGENIE_TEAMS_PAGE_QUERY a) (Some vars)
            (Some ''JiraProjectOpsgenieTeamsPage'') (Some 1) te = (Inr tresult, te1)
        \<and> data tresult = Some td \<and> parse_project_opsgenie_teams a td = Inr tconn
        \<and> tnxt = next_after_from_pageinfo (PAGEINFO_HAS_END_CURSOR a)
                   (has_next_page (page_info tconn)) (end_cursor (page_info tconn))
                   (OPSGENIE_EDGE_HAS_CURSOR a) (map cursor (edges tconn)) (teams_path p)
      \<longrightarrow>
        (tnxt = Inr None \<longrightarrow>
           teams_loop (Suc fuel) cl w parse a cloud p page_size tafter tseen out te
             = Some (Inr (out @ map node (edges tconn)), te1))
      \<and> (tnxt = Inr (Some tnc) \<and> tnc \<notin> tseen \<longrightarrow>
           teams_loop (Suc fuel) cl w parse a cloud p page_size tafter tseen out te
             = teams_loop fuel cl w parse a cloud p page_size tnc (insert tnc tseen)
                 (out @ map node (edges tconn)) te1)
      \<and> (tnxt = Inl terr \<longrightarrow>
           teams_loop (Suc fuel) cl w parse a cloud p page_size tafter tseen out te
             = Some (Inl terr, te1)))
   \<and> (inxt = next_after_from_pageinfo (PAGEINFO_HAS_END_CURSOR a)
                (has_next_page (page_info initial)) (end_cursor (page_info initial))
                (OPSGENIE_EDGE_HAS_CURSOR a) (map cursor (edges initial)) (teams_path p)
      \<longrightarrow>
        (inxt = Inr None \<longrightarrow>
           paginate_opsgenie_teams fuel cl w parse a cloud p initial page_size pe
             = Some (Inr [], pe))
      \<and> (inxt = Inr (Some inc) \<longrightarrow>
           paginate_opsgenie_teams fuel cl w parse a cloud p initial page_size pe
             = teams_loop fuel cl w parse a cloud p page_size inc {inc} [] pe)
      \<and> (inxt = Inl ierr \<longrightarrow>
           paginate_opsgenie_teams fuel cl w parse a cloud p initial page_size pe
             = Some (Inl ierr, pe)))"
proof -
  have p1: "next_after_from_pageinfo exposes_end has_next end_cur edge_has cs path = Inr None"
    if "\<not> has_next"
    using that by (simp add: next_after_from_pageinfo_def)
  have p2: "next_after_from_pageinfo exposes_end has_next end_cur edge_has cs path = Inr (Some c)"
    if "has_next" "exposes_end" "end_cur = Some c" "c \<noteq> []"
    using that by (simp add: next_after_from_pageinfo_def truthy_def)
  have p3: "next_after_from_pageinfo exposes_end has_next end_cur edge_has cs path = Inr (Some c)"
    if h: "has_next" "\<not> (exposes_end \<and> truthy end_cur)" "edge_has"
      "cs = before @ [Some c] @ rest" "c \<noteq> []" "\<forall>x \<in> set rest. \<not> truthy x"
  proof -
    have "truthy (Some c)" using h(5) by (simp add: truthy_def)
    from find_last_truthy [of truthy, OF this h(6), of before]
    have "find truthy (rev cs) = Some (Some c)" by (simp add: h(4))
    then show ?thesis using h(1-3) by (auto simp: next_after_from_pageinfo_def)
  qed
  have p4: "next_after_from_pageinfo exposes_end has_next end_cur edge_has cs path
        = Inl (SerializationError (''Pagination cursor missing for '' @ path))"
    if h: "has_next" "\<not> (exposes_end \<and> truthy end_cur)"
      "\<not> edge_has \<or> (\<forall>x \<in> set cs. \<not> truthy x)"
  proof -
    have "(if edge_has then find truthy (rev cs) else None) = None"
      using h(3) find_none_truthy [of cs truthy] by auto
    then show ?thesis using h(1,2) by (auto simp: next_after_from_pageinfo_def)
  qed
  have outer:
    "(nxt = Inr None \<longrightarrow>
           projects_loop (Suc fuel) cl w parse a cloud page_size q after seen e = Some (Inr (), e2))
      \<and> (nxt = Inr (Some nc) \<and> nc \<notin> seen \<longrightarrow>
           projects_loop (Suc fuel) cl w parse a cloud page_size q after seen e
             = projects_loop fuel cl w parse a cloud page_size q (Some nc) (insert nc seen) e2)
      \<and> (nxt = Inl err \<longrightarrow>
           projects_loop (Suc fuel) cl w parse a cloud page_size q after seen e
             = Some (Inl err, e2))"
    if h: "execute cl w parse q (Some (ProjectsPage cloud page_size after page_size))
          (Some ''JiraProjectsPage'') (Some 1) e = (Inr result, e1)"
      "data result = Some d" "parse_jira_projects_page a d = Inr conn"
      "yield_edges (Suc fuel) cl w parse a cloud page_size (edges conn) e1 = Some (Inr (), e2)"
      "nxt = next_after_from_pageinfo (PAGEINFO_HAS_END_CURSOR a)
                  (has_next_page (page_info conn)) (end_cursor (page_info conn))
                  (PROJECTS_EDGE_HAS_CURSOR a) (map cursor (edges conn)) ''jira.projects''"
    by (simp add: h(1-4) h(5) [symmetric])
  have inner:
    "(tnxt = Inr None \<longrightarrow>
           teams_loop (Suc fuel) cl w parse a cloud p page_size tafter tseen out te
             = Some (Inr (out @ map node (edges tconn)), te1))
      \<and> (tnxt = Inr (Some tnc) \<and> tnc \<notin> tseen \<longrightarrow>
           teams_loop (Suc fuel) cl w parse a cloud p page_size tafter tseen out te
             = teams_loop fuel cl w parse a cloud p page_size tnc (insert tnc tseen)
                 (out @ map node (edges tconn)) te1)
      \<and> (tnxt = Inl terr \<longrightarrow>
           teams_loop (Suc fuel) cl w parse a cloud p page_size tafter tseen out te
             = Some (Inl terr, te1))"
    if h: "teams_page_variables a cloud p page_size tafter = Inr vars"
      "execute cl w parse (JIRA_PROJECT_OPSGENIE_TEAMS_PAGE_QUERY a) (Some vars)
            (Some ''JiraProjectOpsgenieTeamsPage'') (Some 1) te = (Inr tresult, te1)"
      "data tresult = Some td" "parse_project_opsgenie_teams a td = Inr tconn"
      "tnxt = next_after_from_pageinfo (PAGEINFO_HAS_END_CURSOR a)
                   (has_next_page (page_info tconn)) (end_cursor (page_info tconn))
                   (OPSGENIE_EDGE_HAS_CURSOR a) (map cursor (edges tconn)) (teams_path p)"
    by (simp add: h(1-4) h(5) [symmetric] Let_def)
  have first:
    "(inxt = Inr None \<longrightarrow>
           paginate_opsgenie_teams fuel cl w parse a cloud p initial page_size pe
             = Some (Inr [], pe))
      \<and> (inxt = Inr (Some inc) \<longrightarrow>
           paginate_opsgenie_teams fuel cl w parse a cloud p initial page_size pe
             = teams_loop fuel cl w parse a cloud p page_size inc {inc} [] pe)
      \<and> (inxt = Inl ierr \<longrightarrow>
           paginate_opsgenie_teams fuel cl w parse a cloud p initial page_size pe
             = Some (Inl ierr, pe))"
    if h: "inxt = next_after_from_pageinfo (PAGEINFO_HAS_END_CURSOR a)
                (has_next_page (page_info initial)) (end_cursor (page_info initial))
                (OPSGENIE_EDGE_HAS_CURSOR a) (map cursor (edges initial)) (teams_path p)"
    by (simp add: paginate_opsgenie_teams_def h [symmetric])
  from p1 p2 p3 p4 outer inner first show ?thesis by blast
qed

theorem next_cursor_selection_witness:
  "next_after_from_pageinfo True False (Some ''P1'') True [Some ''pc1''] ''jira.projects'' = Inr None
   \<and> next_after_from_pageinfo True True (Some ''P1'') True [Some ''pc1''] ''jira.projects''
       = Inr (Some ''P1'')
   \<and> next_after_from_pageinfo False True (Some ''P1'') True [Some ''pc1'', Some ''pc2'', None]
        ''jira.projects'' = Inr (Some ''pc2'')
   \<and> next_after_from_pageinfo True True (Some '''') True [None, Some ''''] ''jira.projects''
       = Inl (SerializationError ''Pagination cursor missing for jira.projects'')
   \<and> projects_loop (Suc 8) (GraphQLClient 2 60 False) nested_world no_parse scenario_api
        ''cloud-123'' 50 ''query JiraProjectsPage'' (Some ''P1'') {''P1''} after_page_1
       = Some (Inr (), after_page_2)
   \<and> projects_loop (Suc 8) (GraphQLClient 2 60 False) nested_world no_parse scenario_api
        ''cloud-123'' 50 ''query JiraProjectsPage'' None {} cursor_env
       = projects_loop 8 (GraphQLClient 2 60 False) nested_world no_parse scenario_api
           ''cloud-123'' 50 ''query JiraProjectsPage'' (Some ''P1'') (insert ''P1'' {}) after_page_1
   \<and> projects_loop (Suc 8) (GraphQLClient 2 60 False) cursorless_world no_parse scenario_api
        ''cloud-123'' 50 ''query JiraProjectsPage'' None {} cursor_env
       = Some (Inl (SerializationError ''Pagination cursor missing for jira.projects''),
               after_outer_1)
   \<and> teams_loop (Suc 8) (GraphQLClient 2 60 False) nested_world no_parse scenario_api
        ''cloud-123'' node_A 50 ''TA1'' {''TA1''} [] after_outer_1
       = Some (Inr ([] @ map node (edges teams_page_2)), after_nested)
   \<and> teams_loop (Suc 8) (GraphQLClient 2 60 False) looping_teams_world no_parse scenario_api
        ''cloud-123'' project_node_A 50 ''TA0'' {''TA0''} [] cursor_env
       = teams_loop 8 (GraphQLClient 2 60 False) looping_teams_world no_parse scenario_api
           ''cloud-123'' project_node_A 50 ''TA1'' (insert ''TA1'' {''TA0''})
           ([] @ map node (edges looping_teams)) teams_asked
   \<and> teams_loop (Suc 8) (GraphQLClient 2 60 False) cursorless_teams_world no_parse scenario_api
        ''cloud-123'' project_node_A 50 ''TA0'' {''TA0''} [] cursor_env
       = Some (Inl (SerializationError
                 ''Pagination cursor missing for jira.project[A].opsgenieTeams''), teams_asked)
   \<and> paginate_opsgenie_teams 9 (GraphQLClient 2 60 False) nested_world no_parse scenario_api
        ''cloud-123'' node_B (opsgenie_teams node_B) 50 cursor_env
       = Some (Inr [], cursor_env)
   \<and> paginate_opsgenie_teams 9 (GraphQLClient 2 60 False) nested_world no_parse scenario_api
        ''cloud-123'' node_A (opsgenie_teams node_A) 50 after_outer_1
       = teams_loop 9 (GraphQLClient 2 60 False) nested_world no_parse scenario_api
           ''cloud-123'' node_A 50 ''TA1'' {''TA1''} [] after_outer_1
   \<and> paginate_opsgenie_teams 9 (GraphQLClient 2 60 False) nested_world no_parse scenario_api
        ''cloud-123'' project_node_A cursorless_teams 50 cursor_env
       = Some (Inl (SerializationError
                 ''Pagination cursor missing for jira.project[A].opsgenieTeams''), cursor_env)"
proof -
  have t: "\<not> truthy (Some '''')" "\<not> truthy None" "truthy (Some ''P1'')"
    by (simp_all add: truthy_def)
  have a: "next_after_from_pageinfo True False (Some ''P1'') True [Some ''pc1''] ''jira.projects'' = Inr None"
    using next_cursor_selection [where has_next = False and exposes_end = True
        and end_cur = "Some ''P1''" and edge_has = True and cs = "[Some ''pc1'']"
        and path = "''jira.projects''", THEN conjunct1]
    by simp
  have b: "next_after_from_pageinfo True True (Some ''P1'') True [Some ''pc1''] ''jira.projects''
       = Inr (Some ''P1'')"
    using next_cursor_selection [where has_next = True and exposes_end = True
        and end_cur = "Some ''P1''" and edge_has = True and cs = "[Some ''pc1'']"
        and path = "''jira.projects''" and c = "''P1''", THEN conjunct2, THEN conjunct1]
    by simp
  have c: "next_after_from_pageinfo False True (Some ''P1'') True [Some ''pc1'', Some ''pc2'', None]
        ''jira.projects'' = Inr (Some ''pc2'')"
    using next_cursor_selection [where has_next = True and exposes_end = False
        and end_cur = "Some ''P1''" and edge_has = True and cs = "[Some ''pc1'', Some ''pc2'', None]"
        and path = "''jira.projects''" and c = "''pc2''" and before = "[Some ''pc1'']"
        and rest = "[None]", THEN conjunct2, THEN conjunct2, THEN conjunct1] t
    by simp
  have d: "next_after_from_pageinfo True True (Some '''') True [None, Some ''''] ''jira.projects''
       = Inl (SerializationError ''Pagination cursor missing for jira.projects'')"
    using next_cursor_selection [where has_next = True and exposes_end = True
        and end_cur = "Some ''''" and edge_has = True and cs = "[None, Some '''']"
        and path = "''jira.projects''", THEN conjunct2, THEN conjunct2, THEN conjunct2,
        THEN conjunct1] t
    by simp
  note O = next_cursor_selection [THEN conjunct2, THEN conjunct2, THEN conjunct2, THEN conjunct2,
      THEN conjunct1, rule_format]
  note T = next_cursor_selection [THEN conjunct2, THEN conjunct2, THEN conjunct2, THEN conjunct2,
      THEN conjunct2, THEN conjunct1, rule_format]
  note P = next_cursor_selection [THEN conjunct2, THEN conjunct2, THEN conjunct2, THEN conjunct2,
      THEN conjunct2, THEN conjunct2, rule_format]
  have o1: "execute (GraphQLClient 2 60 False) nested_world no_parse ''query JiraProjectsPage''
          (Some (ProjectsPage ''cloud-123'' 50 (Some ''P1'') 50)) (Some ''JiraProjectsPage'') (Some 1)
          after_page_1
        = (Inr \<lparr>data = Some (ProjectsData outer_page_2), errors = None, extensions = None\<rparr>,
           after_outer_2)
      \<and> data \<lparr>data = Some (ProjectsData outer_page_2), errors = None, extensions = None\<rparr>
          = Some (ProjectsData outer_page_2)
      \<and> parse_jira_projects_page scenario_api (ProjectsData outer_page_2) = Inr outer_page_2
      \<and> yield_edges (Suc 8) (GraphQLClient 2 60 False) nested_world no_parse scenario_api
          ''cloud-123'' 50 (edges outer_page_2) after_outer_2 = Some (Inr (), after_page_2)
      \<and> Inr None = next_after_from_pageinfo (PAGEINFO_HAS_END_CURSOR scenario_api)
                  (has_next_page (page_info outer_page_2)) (end_cursor (page_info outer_page_2))
                  (PROJECTS_EDGE_HAS_CURSOR scenario_api) (map cursor (edges outer_page_2))
                  ''jira.projects''"
    by (intro conjI; code_simp)
  have o2: "execute (GraphQLClient 2 60 False) nested_world no_parse ''query JiraProjectsPage''
          (Some (ProjectsPage ''cloud-123'' 50 None 50)) (Some ''JiraProjectsPage'') (Some 1)
          cursor_env
        = (Inr \<lparr>data = Some (ProjectsData outer_page_1), errors = None, extensions = None\<rparr>,
           after_outer_1)
      \<and> data \<lparr>data = Some (ProjectsData outer_page_1), errors = None, extensions = None\<rparr>
          = Some (ProjectsData outer_page_1)
      \<and> parse_jira_projects_page scenario_api (ProjectsData outer_page_1) = Inr outer_page_1
      \<and> yield_edges (Suc 8) (GraphQLClient 2 60 False) nested_world no_parse scenario_api
          ''cloud-123'' 50 (edges outer_page_1) after_outer_1 = Some (Inr (), after_page_1)
      \<and> Inr (Some ''P1'') = next_after_from_pageinfo (PAGEINFO_HAS_END_CURSOR scenario_api)
                  (has_next_page (page_info outer_page_1)) (end_cursor (page_info outer_page_1))
                  (PROJECTS_EDGE_HAS_CURSOR scenario_api) (map cursor (edges outer_page_1))
                  ''jira.projects''"
    by (intro conjI; code_simp)
  have o3: "execute (GraphQLClient 2 60 False) cursorless_world no_parse ''query JiraProjectsPage''
          (Some (ProjectsPage ''cloud-123'' 50 None 50)) (Some ''JiraProjectsPage'') (Some 1)
          cursor_env
        = (Inr \<lparr>data = Some (ProjectsData cursorless_page), errors = None, extensions = None\<rparr>,
           after_outer_1)
      \<and> data \<lparr>data = Some (ProjectsData cursorless_page), errors = None, extensions = None\<rparr>
          = Some (ProjectsData cursorless_page)
      \<and> parse_jira_projects_page scenario_api (ProjectsData cursorless_page) = Inr cursorless_page
      \<and> yield_edges (Suc 8) (GraphQLClient 2 60 False) cursorless_world no_parse scenario_api
          ''cloud-123'' 50 (edges cursorless_page) after_outer_1 = Some (Inr (), after_outer_1)
      \<and> Inl (SerializationError ''Pagination cursor missing for jira.projects'')
          = next_after_from_pageinfo (PAGEINFO_HAS_END_CURSOR scenario_api)
                  (has_next_page (page_info cursorless_page)) (end_cursor (page_info cursorless_page))
                  (PROJECTS_EDGE_HAS_CURSOR scenario_api) (map cursor (edges cursorless_page))
                  ''jira.projects''"
    by (intro conjI; code_simp)
  have e: "projects_loop (Suc 8) (GraphQLClient 2 60 False) nested_world no_parse scenario_api
        ''cloud-123'' 50 ''query JiraProjectsPage'' (Some ''P1'') {''P1''} after_page_1
       = Some (Inr (), after_page_2)"
    by (rule O [OF o1, THEN conjunct1, rule_format, OF refl])
  have new: "''P1'' \<notin> ({} :: string set)" "''TA1'' \<notin> {''TA0''}"
    by simp_all
  have f: "projects_loop (Suc 8) (GraphQLClient 2 60 False) nested_world no_parse scenario_api
        ''cloud-123'' 50 ''query JiraProjectsPage'' None {} cursor_env
       = projects_loop 8 (GraphQLClient 2 60 False) nested_world no_parse scenario_api
           ''cloud-123'' 50 ''query JiraProjectsPage'' (Some ''P1'') (insert ''P1'' {}) after_page_1"
    by (rule O [OF o2, THEN conjunct2, THEN conjunct1, rule_format, OF conjI [OF refl new(1)]])
  have g: "projects_loop (Suc 8) (GraphQLClient 2 60 False) cursorless_world no_parse scenario_api
        ''cloud-123'' 50 ''query JiraProjectsPage'' None {} cursor_env
       = Some (Inl (SerializationError ''Pagination cursor missing for jira.projects''),
               after_outer_1)"
    by (rule O [OF o3, THEN conjunct2, THEN conjunct2, rule_format, OF refl])
  have t1: "teams_page_variables scenario_api ''cloud-123'' node_A 50 ''TA1''
          = Inr (TeamsPageOfNode ''projA'' 50 ''TA1'')
      \<and> execute (GraphQLClient 2 60 False) nested_world no_parse
          (JIRA_PROJECT_OPSGENIE_TEAMS_PAGE_QUERY scenario_api)
          (Some (TeamsPageOfNode ''projA'' 50 ''TA1'')) (Some ''JiraProjectOpsgenieTeamsPage'')
          (Some 1) after_outer_1
        = (Inr \<lparr>data = Some (TeamsData teams_page_2), errors = None, extensions = None\<rparr>,
           after_nested)
      \<and> data \<lparr>data = Some (TeamsData teams_page_2), errors = None, extensions = None\<rparr>
          = Some (TeamsData teams_page_2)
      \<and> parse_project_opsgenie_teams scenario_api (TeamsData teams_page_2) = Inr teams_page_2
      \<and> Inr None = next_after_from_pageinfo (PAGEINFO_HAS_END_CURSOR scenario_api)
                   (has_next_page (page_info teams_page_2)) (end_cursor (page_info teams_page_2))
                   (OPSGENIE_EDGE_HAS_CURSOR scenario_api) (map cursor (edges teams_page_2))
                   (teams_path node_A)"
    by (intro conjI; code_simp)
  have t2: "teams_page_variables scenario_api ''cloud-123'' project_node_A 50 ''TA0''
          = Inr (TeamsPageOfNode ''projA'' 50 ''TA0'')
      \<and> execute (GraphQLClient 2 60 False) looping_teams_world no_parse
          (JIRA_PROJECT_OPSGENIE_TEAMS_PAGE_QUERY scenario_api)
          (Some (TeamsPageOfNode ''projA'' 50 ''TA0'')) (Some ''JiraProjectOpsgenieTeamsPage'')
          (Some 1) cursor_env
        = (Inr \<lparr>data = Some (TeamsData looping_teams), errors = None, extensions = None\<rparr>,
           teams_asked)
      \<and> data \<lparr>data = Some (TeamsData looping_teams), errors = None, extensions = None\<rparr>
          = Some (TeamsData looping_teams)
      \<and> parse_project_opsgenie_teams scenario_api (TeamsData looping_teams) = Inr looping_teams
      \<and> Inr (Some ''TA1'') = next_after_from_pageinfo (PAGEINFO_HAS_END_CURSOR scenario_api)
                   (has_next_page (page_info looping_teams)) (end_cursor (page_info looping_teams))
                   (OPSGENIE_EDGE_HAS_CURSOR scenario_api) (map cursor (edges looping_teams))
                   (teams_path project_node_A)"
    by (intro conjI; code_simp)
  have t3: "teams_page_variables scenario_api ''cloud-123'' project_node_A 50 ''TA0''
          = Inr (TeamsPageOfNode ''projA'' 50 ''TA0'')
      \<and> execute (GraphQLClient 2 60 False) cursorless_teams_world no_parse
          (JIRA_PROJECT_OPSGENIE_TEAMS_PAGE_QUERY scenario_api)
          (Some (TeamsPageOfNode ''projA'' 50 ''TA0'')) (Some ''JiraProjectOpsgenieTeamsPage'')
          (Some 1) cursor_env
        = (Inr \<lparr>data = Some (TeamsData cursorless_teams), errors = None, extensions = None\<rparr>,
           teams_asked)
      \<and> data \<lparr>data = Some (TeamsData cursorless_teams), errors = None, extensions = None\<rparr>
          = Some (TeamsData cursorless_teams)
      \<and> parse_project_opsgenie_teams scenario_api (TeamsData cursorless_teams) = Inr cursorless_teams
      \<and> Inl (SerializationError ''Pagination cursor missing for jira.project[A].opsgenieTeams'')
          = next_after_from_pageinfo (PAGEINFO_HAS_END_CURSOR scenario_api)
                   (has_next_page (page_info cursorless_teams)) (end_cursor (page_info cursorless_teams))
                   (OPSGENIE_EDGE_HAS_CURSOR scenario_api) (map cursor (edges cursorless_teams))
                   (teams_path project_node_A)"
    by (intro conjI; code_simp)
  have h: "teams_loop (Suc 8) (GraphQLClient 2 60 False) nested_world no_parse scenario_api
        ''cloud-123'' node_A 50 ''TA1'' {''TA1''} [] after_outer_1
       = Some (Inr ([] @ map node (edges teams_page_2)), after_nested)"
    by (rule T [OF t1, THEN conjunct1, rule_format, OF refl])
  have i: "teams_loop (Suc 8) (GraphQLClient 2 60 False) looping_teams_world no_parse scenario_api
        ''cloud-123'' project_node_A 50 ''TA0'' {''TA0''} [] cursor_env
       = teams_loop 8 (GraphQLClient 2 60 False) looping_teams_world no_parse scenario_api
           ''cloud-123'' project_node_A 50 ''TA1'' (insert ''TA1'' {''TA0''})
           ([] @ map node (edges looping_teams)) teams_asked"
    by (rule T [OF t2, THEN conjunct2, THEN conjunct1, rule_format, OF conjI [OF refl new(2)]])
  have j: "teams_loop (Suc 8) (GraphQLClient 2 60 False) cursorless_teams_world no_parse scenario_api
        ''cloud-123'' project_node_A 50 ''TA0'' {''TA0''} [] cursor_env
       = Some (Inl (SerializationError
                 ''Pagination cursor missing for jira.project[A].opsgenieTeams''), teams_asked)"
    by (rule T [OF t3, THEN conjunct2, THEN conjunct2, rule_format, OF refl])
  have p1: "Inr None = next_after_from_pageinfo (PAGEINFO_HAS_END_CURSOR scenario_api)
                (has_next_page (page_info (opsgenie_teams node_B)))
                (end_cursor (page_info (opsgenie_teams node_B)))
                (OPSGENIE_EDGE_HAS_CURSOR scenario_api) (map cursor (edges (opsgenie_teams node_B)))
                (teams_path node_B)"
    by code_simp
  have p2: "Inr (Some ''TA1'') = next_after_from_pageinfo (PAGEINFO_HAS_END_CURSOR scenario_api)
                (has_next_page (page_info (opsgenie_teams node_A)))
                (end_cursor (page_info (opsgenie_teams node_A)))
                (OPSGENIE_EDGE_HAS_CURSOR scenario_api) (map cursor (edges (opsgenie_teams node_A)))
                (teams_path node_A)"
    by code_simp
  have p3: "Inl (SerializationError ''Pagination cursor missing for jira.project[A].opsgenieTeams'')
             = next_after_from_pageinfo (PAGEINFO_HAS_END_CURSOR scenario_api)
                (has_next_page (page_info cursorless_teams))
                (end_cursor (page_info cursorless_teams))
                (OPSGENIE_EDGE_HAS_CURSOR scenario_api) (map cursor (edges cursorless_teams))
                (teams_path project_node_A)"
    by code_simp
  have k: "paginate_opsgenie_teams 9 (GraphQLClient 2 60 False) nested_world no_parse scenario_api
        ''cloud-123'' node_B (opsgenie_teams node_B) 50 cursor_env
       = Some (Inr [], cursor_env)"
    by (rule P [OF p1, THEN conjunct1, rule_format, OF refl])
  have l: "paginate_opsgenie_teams 9 (GraphQLClient 2 60 False) nested_world no_parse scenario_api
        ''cloud-123'' node_A (opsgenie_teams node_A) 50 after_outer_1
       = teams_loop 9 (GraphQLClient 2 60 False) nested_world no_parse scenario_api
           ''cloud-123'' node_A 50 ''TA1'' {''TA1''} [] after_outer_1"
    by (rule P [OF p2, THEN conjunct2, THEN conjunct1, rule_format, OF refl])
  have m: "paginate_opsgenie_teams 9 (GraphQLClient 2 60 False) nested_world no_parse scenario_api
        ''cloud-123'' project_node_A cursorless_teams 50 cursor_env
       = Some (Inl (SerializationError
                 ''Pagination cursor missing for jira.project[A].opsgenieTeams''), cursor_env)"
    by (rule P [OF p3, THEN conjunct2, THEN conjunct2, rule_format, OF refl])
  from a b c d e f g h i j k l m show ?thesis by (intro conjI)
qed

text \<open>
  C4. What a page decides in the offset paginators, in this precedence: the loop stops when
  the is-last flag is present and true; else, when a non-negative total is present, it
  stops once the offset plus the number of returned items reaches the total; else (no such
  total) it stops when fewer items than \<^verbatim>\<open>page_size\<close> were returned. Only a page that none
  of these stops gets further: when it is empty and its is-last flag is present and false,
  the loop raises a \<^verbatim>\<open>SerializationError\<close> instead of continuing, which for a positive
  \<^verbatim>\<open>page_size\<close> (the paginator rejects any other) happens exactly when a non-negative
  total is present and the offset is still below it; every other empty page stops the
  loop normally, also one whose flag is false but which has no total or whose total is
  reached; a page with items continues at the offset plus their number.
  \<^verbatim>\<open>iter_issues_via_rest\<close> reads no is-last flag and decides by the total, the page size and
  emptiness alone. The last two parts say that the loops act on this decision once the
  page has been fetched, parsed and its records yielded.
\<close>

theorem offset_termination_precedence:
  fixes page :: page_bean_project and ipage :: "'i search_results"
  defines "n \<equiv> int (length (values page))"
  defines "has_total \<equiv> (\<exists>t. total page = Some t \<and> 0 \<le> t)"
  defines "m \<equiv> int (length (issues ipage))"
  defines "ihas_total \<equiv> (\<exists>t. issues_total ipage = Some t \<and> 0 \<le> t)"
  shows
  "(is_last page = Some True \<longrightarrow> projects_page_verdict start_at page_size page = Stop)
   \<and> (is_last page \<noteq> Some True \<and> has_total \<and> the (total page) \<le> start_at + n
        \<longrightarrow> projects_page_verdict start_at page_size page = Stop)
   \<and> (is_last page \<noteq> Some True \<and> \<not> has_total \<and> n < page_size
        \<longrightarrow> projects_page_verdict start_at page_size page = Stop)
   \<and> (is_last page = Some False \<and> n = 0 \<and> has_total \<and> start_at < the (total page)
        \<longrightarrow> projects_page_verdict start_at page_size page
              = Fail (SerializationError
                  ''Received empty page with isLast=false; cannot continue pagination''))
   \<and> (0 < page_size
        \<longrightarrow> (\<exists>err. projects_page_verdict start_at page_size page = Fail err)
              = (is_last page = Some False \<and> n = 0 \<and> has_total \<and> start_at < the (total page)))
   \<and> (is_last page \<noteq> Some False \<and> n = 0
        \<longrightarrow> projects_page_verdict start_at page_size page = Stop)
   \<and> (is_last page = Some False \<and> n = 0 \<and> 0 < page_size
        \<and> \<not> (has_total \<and> start_at < the (total page))
        \<longrightarrow> projects_page_verdict start_at page_size page = Stop)
   \<and> (is_last page \<noteq> Some True \<and> 0 < n
        \<and> (if has_total then start_at + n < the (total page) else page_size \<le> n)
        \<longrightarrow> projects_page_verdict start_at page_size page = Next (start_at + n))
   \<and> (ihas_total \<and> the (issues_total ipage) \<le> start_at + m
        \<longrightarrow> issues_page_verdict start_at page_size ipage = Stop)
   \<and> (\<not> ihas_total \<and> m < page_size \<longrightarrow> issues_page_verdict start_at page_size ipage = Stop)
   \<and> (m = 0 \<longrightarrow> issues_page_verdict start_at page_size ipage = Stop)
   \<and> (0 < m \<and> (if ihas_total then start_at + m < the (issues_total ipage) else page_size \<le> m)
        \<longrightarrow> issues_page_verdict start_at page_size ipage = Next (start_at + m))
   \<and> (start_at \<notin> seen
        \<and> get_json c w parse ''/rest/api/3/project/search''
              (Some (ProjectSearch start_at page_size)) e = (Inr body, e1)
        \<and> from_dict body = Inr page
        \<and> yield_projects cloud types (values page) e1 = (Inr (), e2)
        \<longrightarrow> rest_projects_loop (Suc fuel) c w parse from_dict cloud types page_size start_at seen e
              = (case projects_page_verdict start_at page_size page of
                   Stop \<Rightarrow> Some (Inr (), e2)
                 | Fail err \<Rightarrow> Some (Inl err, e2)
                 | Next s' \<Rightarrow>
                     rest_projects_loop fuel c w parse from_dict cloud types page_size s'
                       (insert start_at seen) e2))
   \<and> (start_at \<notin> seen
        \<and> get_json c w' parse ''/rest/api/3/search''
              (Some (IssueSearch jql start_at page_size fields_param)) e' = (Inr ibody, e1')
        \<and> ifrom_dict ibody = Inr ipage
        \<and> yield_issues map_issue (issues ipage) e1' = (Inr (), e2')
        \<longrightarrow> rest_issues_loop (Suc fuel) c w' parse ifrom_dict map_issue jql fields_param page_size
                start_at seen e'
              = (case issues_page_verdict start_at page_size ipage of
                   Stop \<Rightarrow> Some (Inr (), e2')
                 | Fail err \<Rightarrow> Some (Inl err, e2')
                 | Next s' \<Rightarrow>
                     rest_issues_loop fuel c w' parse ifrom_dict map_issue jql fields_param
                       page_size s' (insert start_at seen) e2'))"
proof -
  have ht: "(case total page of None \<Rightarrow> False | Some t \<Rightarrow> 0 \<le> t) = has_total"
    by (simp add: has_total_def split: option.splits)
  have iht: "(case issues_total ipage of None \<Rightarrow> False | Some t \<Rightarrow> 0 \<le> t) = ihas_total"
    by (simp add: ihas_total_def split: option.splits)
  have p: "projects_page_verdict start_at page_size page =
     (if is_last page = Some True then Stop
      else if has_total \<and> the (total page) \<le> start_at + n then Stop
      else if \<not> has_total \<and> n < page_size then Stop
      else if n = 0 then
        (if is_last page = Some False then
           Fail (SerializationError
             ''Received empty page with isLast=false; cannot continue pagination'')
         else Stop)
      else Next (start_at + n))"
    unfolding projects_page_verdict_def Let_def ht n_def [symmetric]
    by (cases "is_last page") auto
  have i: "issues_page_verdict start_at page_size ipage =
     (if ihas_total \<and> the (issues_total ipage) \<le> start_at + m then Stop
      else if \<not> ihas_total \<and> m < page_size then Stop
      else if m = 0 then Stop
      else Next (start_at + m))"
    unfolding issues_page_verdict_def Let_def iht m_def [symmetric] by simp
  have npos: "0 \<le> n" "0 \<le> m" by (simp_all add: n_def m_def)
  have v: "(is_last page = Some True \<longrightarrow> projects_page_verdict start_at page_size page = Stop)
   \<and> (is_last page \<noteq> Some True \<and> has_total \<and> the (total page) \<le> start_at + n
        \<longrightarrow> projects_page_verdict start_at page_size page = Stop)
   \<and> (is_last page \<noteq> Some True \<and> \<not> has_total \<and> n < page_size
        \<longrightarrow> projects_page_verdict start_at page_size page = Stop)
   \<and> (is_last page = Some False \<and> n = 0 \<and> has_total \<and> start_at < the (total page)
        \<longrightarrow> projects_page_verdict start_at page_size page
              = Fail (SerializationError
                  ''Received empty page with isLast=false; cannot continue pagination''))
   \<and> (0 < page_size
        \<longrightarrow> (\<exists>err. projects_page_verdict start_at page_size page = Fail err)
              = (is_last page = Some False \<and> n = 0 \<and> has_total \<and> start_at < the (total page)))
   \<and> (is_last page \<noteq> Some False \<and> n = 0
        \<longrightarrow> projects_page_verdict start_at page_size page = Stop)
   \<and> (is_last page = Some False \<and> n = 0 \<and> 0 < page_size
        \<and> \<not> (has_total \<and> start_at < the (total page))
        \<longrightarrow> projects_page_verdict start_at page_size page = Stop)
   \<and> (is_last page \<noteq> Some True \<and> 0 < n
        \<and> (if has_total then start_at + n < the (total page) else page_size \<le> n)
        \<longrightarrow> projects_page_verdict start_at page_size page = Next (start_at + n))
   \<and> (ihas_total \<and> the (issues_total ipage) \<le> start_at + m
        \<longrightarrow> issues_page_verdict start_at page_size ipage = Stop)
   \<and> (\<not> ihas_total \<and> m < page_size \<longrightarrow> issues_page_verdict start_at page_size ipage = Stop)
   \<and> (m = 0 \<longrightarrow> issues_page_verdict start_at page_size ipage = Stop)
   \<and> (0 < m \<and> (if ihas_total then start_at + m < the (issues_total ipage) else page_size \<le> m)
        \<longrightarrow> issues_page_verdict start_at page_size ipage = Next (start_at + m))"
    unfolding p i using npos by (auto split: if_splits)
  have l1: "rest_projects_loop (Suc fuel) c w parse from_dict cloud types page_size start_at seen e
              = (case projects_page_verdict start_at page_size page of
                   Stop \<Rightarrow> Some (Inr (), e2)
                 | Fail err \<Rightarrow> Some (Inl err, e2)
                 | Next s' \<Rightarrow>
                     rest_projects_loop fuel c w parse from_dict cloud types page_size s'
                       (insert start_at seen) e2)"
    if "start_at \<notin> seen"
      "get_json c w parse ''/rest/api/3/project/search''
              (Some (ProjectSearch start_at page_size)) e = (Inr body, e1)"
      "from_dict body = Inr page" "yield_projects cloud types (values page) e1 = (Inr (), e2)"
    by (simp only: rest_projects_loop.simps that if_False sum.case prod.case)
  have l2: "rest_issues_loop (Suc fuel) c w' parse ifrom_dict map_issue jql fields_param page_size
                start_at seen e'
              = (case issues_page_verdict start_at page_size ipage of
                   Stop \<Rightarrow> Some (Inr (), e2')
                 | Fail err \<Rightarrow> Some (Inl err, e2')
                 | Next s' \<Rightarrow>
                     rest_issues_loop fuel c w' parse ifrom_dict map_issue jql fields_param
                       page_size s' (insert start_at seen) e2')"
    if "start_at \<notin> seen"
      "get_json c w' parse ''/rest/api/3/search''
              (Some (IssueSearch jql start_at page_size fields_param)) e' = (Inr ibody, e1')"
      "ifrom_dict ibody = Inr ipage" "yield_issues map_issue (issues ipage) e1' = (Inr (), e2')"
    by (simp only: rest_issues_loop.simps that if_False sum.case prod.case)
  have L1: "start_at \<notin> seen
        \<and> get_json c w parse ''/rest/api/3/project/search''
              (Some (ProjectSearch start_at page_size)) e = (Inr body, e1)
        \<and> from_dict body = Inr page
        \<and> yield_projects cloud types (values page) e1 = (Inr (), e2)
        \<longrightarrow> rest_projects_loop (Suc fuel) c w parse from_dict cloud types page_size start_at seen e
              = (case projects_page_verdict start_at page_size page of
                   Stop \<Rightarrow> Some (Inr (), e2)
                 | Fail err \<Rightarrow> Some (Inl err, e2)
                 | Next s' \<Rightarrow>
                     rest_projects_loop fuel c w parse from_dict cloud types page_size s'
                       (insert start_at seen) e2)"
    by (intro impI, elim conjE) (rule l1)
  have L2: "start_at \<notin> seen
        \<and> get_json c w' parse ''/rest/api/3/search''
              (Some (IssueSearch jql start_at page_size fields_param)) e' = (Inr ibody, e1')
        \<and> ifrom_dict ibody = Inr ipage
        \<and> yield_issues map_issue (issues ipage) e1' = (Inr (), e2')
        \<longrightarrow> rest_issues_loop (Suc fuel) c w' parse ifrom_dict map_issue jql fields_param page_size
                start_at seen e'
              = (case issues_page_verdict start_at page_size ipage of
                   Stop \<Rightarrow> Some (Inr (), e2')
                 | Fail err \<Rightarrow> Some (Inl err, e2')
                 | Next s' \<Rightarrow>
                     rest_issues_loop fuel c w' parse ifrom_dict map_issue jql fields_param
                       page_size s' (insert start_at seen) e2')"
    by (intro impI, elim conjE) (rule l2)
  from v L1 L2 show ?thesis by (elim conjE) (intro conjI; assumption)
qed


text \<open>
  An empty page with an explicit is-last flag that is false does not always raise: without a
  total, or with a total that the offset has reached, the loop stops normally, and so the
  paginator ends without an error against a server that sends such a page.
\<close>

theorem offset_termination_precedence_counterexample:
  "is_last empty_flagged = Some False \<and> values empty_flagged = []
   \<and> projects_page_verdict 0 2 empty_flagged = Stop
   \<and> projects_page_verdict 3 2 empty_not_last = Stop
   \<and> iter_projects_via_rest 5 (GraphQLClient 2 60 False) flagged_world no_parse Inr ''cloud-123''
        [''SOFTWARE''] 2 rest_env
       = Some (Inr (), after_first_page)"
proof -
  have a: "is_last empty_flagged = Some False" "values empty_flagged = []"
    by (simp_all add: empty_flagged_def)
  have b: "projects_page_verdict 0 2 empty_flagged = Stop"
    "projects_page_verdict 3 2 empty_not_last = Stop"
    by code_simp+
  have c: "iter_projects_via_rest 5 (GraphQLClient 2 60 False) flagged_world no_parse Inr ''cloud-123''
        [''SOFTWARE''] 2 rest_env
       = Some (Inr (), after_first_page)"
    by code_simp
  from a b c show ?thesis by (intro conjI)
qed

theorem offset_termination_precedence_witness:
  "projects_page_verdict 2 2 last_page = Stop
   \<and> projects_page_verdict 1 2 first_page = Stop
   \<and> projects_page_verdict 0 2 empty_flagged = Stop
   \<and> projects_page_verdict 0 2 empty_not_last
       = Fail (SerializationError ''Received empty page with isLast=false; cannot continue pagination'')
   \<and> (\<exists>err. projects_page_verdict 0 2 empty_not_last = Fail err)
   \<and> projects_page_verdict 0 2 \<lparr>total = Some 3, is_last = None, values = []\<rparr> = Stop
   \<and> projects_page_verdict 3 2 empty_not_last = Stop
   \<and> projects_page_verdict 0 2 first_page = Next 2
   \<and> issues_page_verdict 0 2 issue_page = Stop
   \<and> issues_page_verdict 0 2 \<lparr>issues_total = None, issues = [()]\<rparr> = Stop
   \<and> issues_page_verdict 0 2 \<lparr>issues_total = Some 5, issues = ([] :: unit list)\<rparr> = Stop
   \<and> issues_page_verdict 0 2 \<lparr>issues_total = Some 5, issues = [(), ()]\<rparr> = Next 2
   \<and> rest_projects_loop (Suc 4) (GraphQLClient 2 60 False) search_world no_parse Inr ''cloud-123''
        {''SOFTWARE''} 2 0 {} rest_env
       = rest_projects_loop 4 (GraphQLClient 2 60 False) search_world no_parse Inr ''cloud-123''
           {''SOFTWARE''} 2 2 {0} (emit (Yielded project_A) after_first_page)
   \<and> rest_issues_loop (Suc 4) (GraphQLClient 2 60 False) issue_world no_parse Inr Inr
        ''project = A'' ''status'' 2 0 {} issue_env
       = Some (Inr (), \<lparr>ticks = 0, trace = [HeadersBuilt, Sent issue_search, Yielded ()],
                        bucket = None\<rparr>)"
proof -
  have f: "is_last last_page = Some True" "is_last empty_not_last = Some False"
    "values empty_not_last = []" "total empty_not_last = Some 3"
    "is_last first_page = Some False" "total first_page = Some 3" "length (values first_page) = 2"
    "is_last empty_flagged = Some False" "values empty_flagged = []" "total empty_flagged = None"
    "issues_total issue_page = Some 1" "issues issue_page = [()]"
    by (simp_all add: last_page_def empty_not_last_def first_page_def empty_flagged_def
        issue_page_def)
  have a: "projects_page_verdict 2 2 last_page = Stop"
    using offset_termination_precedence [where page = last_page and start_at = 2 and page_size = 2,
        THEN conjunct1] f
    by simp
  have a2: "projects_page_verdict 1 2 first_page = Stop"
    using offset_termination_precedence [where page = first_page and start_at = 1
        and page_size = 2, THEN conjunct2, THEN conjunct1] f
    by simp
  have a3: "projects_page_verdict 0 2 empty_flagged = Stop"
    using offset_termination_precedence [where page = empty_flagged and start_at = 0
        and page_size = 2, THEN conjunct2, THEN conjunct2, THEN conjunct1] f
    by simp
  have b: "projects_page_verdict 0 2 empty_not_last
       = Fail (SerializationError ''Received empty page with isLast=false; cannot continue pagination'')"
    using offset_termination_precedence [where page = empty_not_last and start_at = 0
        and page_size = 2, THEN conjunct2, THEN conjunct2, THEN conjunct2, THEN conjunct1] f
    by simp
  have b2: "\<exists>err. projects_page_verdict 0 2 empty_not_last = Fail err"
    using offset_termination_precedence [where page = empty_not_last and start_at = 0
        and page_size = 2, THEN conjunct2, THEN conjunct2, THEN conjunct2, THEN conjunct2,
        THEN conjunct1] f
    by simp
  have b3: "projects_page_verdict 0 2 \<lparr>total = Some 3, is_last = None, values = []\<rparr> = Stop"
    using offset_termination_precedence [where page = "\<lparr>total = Some 3, is_last = None, values = []\<rparr>"
        and start_at = 0 and page_size = 2, THEN conjunct2, THEN conjunct2, THEN conjunct2,
        THEN conjunct2, THEN conjunct2, THEN conjunct1]
    by simp
  have b4: "projects_page_verdict 3 2 empty_not_last = Stop"
    using offset_termination_precedence [where page = empty_not_last and start_at = 3
        and page_size = 2, THEN conjunct2, THEN conjunct2, THEN conjunct2, THEN conjunct2,
        THEN conjunct2, THEN conjunct2, THEN conjunct1] f
    by simp
  have c: "projects_page_verdict 0 2 first_page = Next 2"
    using offset_termination_precedence [where page = first_page and start_at = 0
        and page_size = 2, THEN conjunct2, THEN conjunct2, THEN conjunct2, THEN conjunct2,
        THEN conjunct2, THEN conjunct2, THEN conjunct2, THEN conjunct1] f
    by simp
  have d: "issues_page_verdict 0 2 issue_page = Stop"
    using offset_termination_precedence [where ipage = issue_page
        and start_at = 0 and page_size = 2, THEN conjunct2, THEN conjunct2, THEN conjunct2,
        THEN conjunct2, THEN conjunct2, THEN conjunct2, THEN conjunct2, THEN conjunct2,
        THEN conjunct1] f
    by simp
  have d2: "issues_page_verdict 0 2 \<lparr>issues_total = None, issues = [()]\<rparr> = Stop"
    using offset_termination_precedence [where ipage = "\<lparr>issues_total = None, issues = [()]\<rparr>"
        and start_at = 0 and page_size = 2, THEN conjunct2, THEN conjunct2, THEN conjunct2,
        THEN conjunct2, THEN conjunct2, THEN conjunct2, THEN conjunct2, THEN conjunct2,
        THEN conjunct2, THEN conjunct1]
    by simp
  have d3: "issues_page_verdict 0 2 \<lparr>issues_total = Some 5, issues = ([] :: unit list)\<rparr> = Stop"
    using offset_termination_precedence [where
        ipage = "\<lparr>issues_total = Some 5, issues = ([] :: unit list)\<rparr>"
        and start_at = 0 and page_size = 2, THEN conjunct2, THEN conjunct2, THEN conjunct2,
        THEN conjunct2, THEN conjunct2, THEN conjunct2, THEN conjunct2, THEN conjunct2,
        THEN conjunct2, THEN conjunct2, THEN conjunct1]
    by simp
  have d4: "issues_page_verdict 0 2 \<lparr>issues_total = Some 5, issues = [(), ()]\<rparr> = Next 2"
    using offset_termination_precedence [where
        ipage = "\<lparr>issues_total = Some 5, issues = [(), ()]\<rparr>"
        and start_at = 0 and page_size = 2, THEN conjunct2, THEN conjunct2, THEN conjunct2,
        THEN conjunct2, THEN conjunct2, THEN conjunct2, THEN conjunct2, THEN conjunct2,
        THEN conjunct2, THEN conjunct2, THEN conjunct2, THEN conjunct1]
    by simp
  have g: "get_json (GraphQLClient 2 60 False) search_world no_parse ''/rest/api/3/project/search''
             (Some (ProjectSearch 0 2)) rest_env = (Inr first_page, after_first_page)"
    by code_simp
  have y: "yield_projects ''cloud-123'' {''SOFTWARE''} (values first_page) after_first_page
             = (Inr (), emit (Yielded project_A) after_first_page)"
    by code_simp
  have l: "rest_projects_loop (Suc 4) (GraphQLClient 2 60 False) search_world no_parse Inr ''cloud-123''
        {''SOFTWARE''} 2 0 {} rest_env
       = rest_projects_loop 4 (GraphQLClient 2 60 False) search_world no_parse Inr ''cloud-123''
           {''SOFTWARE''} 2 2 {0} (emit (Yielded project_A) after_first_page)"
    using offset_termination_precedence [where page = first_page and start_at = 0
        and page_size = 2 and seen = "{}" and c = "GraphQLClient 2 60 False" and w = search_world
        and parse = no_parse and e = rest_env and body = first_page and ?e1.0 = after_first_page
        and from_dict = Inr and cloud = "''cloud-123''" and types = "{''SOFTWARE''}"
        and ?e2.0 = "emit (Yielded project_A) after_first_page" and fuel = 4,
        THEN conjunct2, THEN conjunct2, THEN conjunct2, THEN conjunct2, THEN conjunct2,
        THEN conjunct2, THEN conjunct2, THEN conjunct2, THEN conjunct2, THEN conjunct2,
        THEN conjunct2, THEN conjunct2, THEN conjunct1] g y c
    by simp
  have ig: "get_json (GraphQLClient 2 60 False) issue_world no_parse ''/rest/api/3/search''
             (Some (IssueSearch ''project = A'' 0 2 ''status'')) issue_env
           = (Inr issue_page,
              \<lparr>ticks = 0, trace = [HeadersBuilt, Sent issue_search], bucket = None\<rparr>)"
    by code_simp
  have iy: "yield_issues Inr (issues issue_page)
              \<lparr>ticks = 0, trace = [HeadersBuilt, Sent issue_search], bucket = None\<rparr>
           = (Inr (), \<lparr>ticks = 0, trace = [HeadersBuilt, Sent issue_search, Yielded ()],
                       bucket = None\<rparr>)"
    by code_simp
  have l2: "rest_issues_loop (Suc 4) (GraphQLClient 2 60 False) issue_world no_parse Inr Inr
        ''project = A'' ''status'' 2 0 {} issue_env
       = Some (Inr (), \<lparr>ticks = 0, trace = [HeadersBuilt, Sent issue_search, Yielded ()],
                        bucket = None\<rparr>)"
    using offset_termination_precedence [where ipage = issue_page and start_at = 0
        and page_size = 2 and seen = "{}" and c = "GraphQLClient 2 60 False" and w' = issue_world
        and parse = no_parse and e' = issue_env and ibody = issue_page
        and ?e1' = "\<lparr>ticks = 0, trace = [HeadersBuilt, Sent issue_search], bucket = None\<rparr>"
        and ifrom_dict = Inr and map_issue = Inr and jql = "''project = A''"
        and fields_param = "''status''"
        and ?e2' = "\<lparr>ticks = 0, trace = [HeadersBuilt, Sent issue_search, Yielded ()],
                       bucket = None\<rparr>" and fuel = 4,
        THEN conjunct2, THEN conjunct2, THEN conjunct2, THEN conjunct2, THEN conjunct2,
        THEN conjunct2, THEN conjunct2, THEN conjunct2, THEN conjunct2, THEN conjunct2,
        THEN conjunct2, THEN conjunct2, THEN conjunct2] ig iy d
    by simp
  from a a2 a3 b b2 b3 b4 c d d2 d3 d4 l l2 show ?thesis by (intro conjI)
qed

text \<open>
  C2. In the outer and in the nested cursor loop, whatever page the server returns: when the
  next cursor computed from the page is in the set of cursors already requested in this
  call, the loop raises a \<^verbatim>\<open>SerializationError\<close> in the state reached after that page, so no
  further request is made; otherwise the cursor is added to the set and is the next one
  requested. In the offset loops, an offset that is in the set of offsets already
  requested raises a \<^verbatim>\<open>SerializationError\<close> before any request. A repeated value is never
  requested again.
\<close>

theorem repeated_value_aborts:
  "(execute c w parse q (Some (ProjectsPage cloud page_size after page_size))
        (Some ''JiraProjectsPage'') (Some 1) e = (Inr result, e1)
      \<and> data result = Some d \<and> parse_jira_projects_page a d = Inr conn
      \<and> yield_edges (Suc fuel) c w parse a cloud page_size (edges conn) e1 = Some (Inr (), e2)
      \<and> next_after_from_pageinfo (PAGEINFO_HAS_END_CURSOR a) (has_next_page (page_info conn))
           (end_cursor (page_info conn)) (PROJECTS_EDGE_HAS_CURSOR a) (map cursor (edges conn))
           ''jira.projects'' = Inr (Some next_after)
    \<longrightarrow>
      (next_after \<in> seen_after \<longrightarrow>
         projects_loop (Suc fuel) c w parse a cloud page_size q after seen_after e
           = Some (Inl (SerializationError
                ''Pagination cursor repeated; aborting to prevent infinite loop''), e2))
    \<and> (next_after \<notin> seen_after \<longrightarrow>
         projects_loop (Suc fuel) c w parse a cloud page_size q after seen_after e
           = projects_loop fuel c w parse a cloud page_size q (Some next_after)
               (insert next_after seen_after) e2))
   \<and>
   (teams_page_variables a cloud p page_size t_after = Inr vars
      \<and> execute c w parse (JIRA_PROJECT_OPSGENIE_TEAMS_PAGE_QUERY a) (Some vars)
           (Some ''JiraProjectOpsgenieTeamsPage'') (Some 1) te = (Inr t_result, te1)
      \<and> data t_result = Some td \<and> parse_project_opsgenie_teams a td = Inr t_conn
      \<and> next_after_from_pageinfo (PAGEINFO_HAS_END_CURSOR a) (has_next_page (page_info t_conn))
           (end_cursor (page_info t_conn)) (OPSGENIE_EDGE_HAS_CURSOR a)
           (map cursor (edges t_conn)) (teams_path p) = Inr (Some t_next)
    \<longrightarrow>
      (t_next \<in> t_seen \<longrightarrow>
         teams_loop (Suc fuel) c w parse a cloud p page_size t_after t_seen out te
           = Some (Inl (SerializationError ''Opsgenie pagination cursor repeated; aborting''), te1))
    \<and> (t_next \<notin> t_seen \<longrightarrow>
         teams_loop (Suc fuel) c w parse a cloud p page_size t_after t_seen out te
           = teams_loop fuel c w parse a cloud p page_size t_next (insert t_next t_seen)
               (out @ map node (edges t_conn)) te1))
   \<and>
   (start_at \<in> seen_start_at \<longrightarrow>
      rest_projects_loop (Suc fuel) c rw parse from_dict cloud types page_size start_at
          seen_start_at re
        = Some (Inl (SerializationError
             ''Pagination startAt repeated; aborting to prevent infinite loop''), re))
   \<and>
   (start_at \<in> seen_start_at \<longrightarrow>
      rest_issues_loop (Suc fuel) c iw parse ifrom_dict map_issue jql fields_param page_size
          start_at seen_start_at ie
        = Some (Inl (SerializationError
             ''Pagination startAt repeated; aborting to prevent infinite loop''), ie))"
proof (intro conjI impI; (elim conjE)?)
  assume h: "execute c w parse q (Some (ProjectsPage cloud page_size after page_size))
        (Some ''JiraProjectsPage'') (Some 1) e = (Inr result, e1)"
    "data result = Some d" "parse_jira_projects_page a d = Inr conn"
    "yield_edges (Suc fuel) c w parse a cloud page_size (edges conn) e1 = Some (Inr (), e2)"
    "next_after_from_pageinfo (PAGEINFO_HAS_END_CURSOR a) (has_next_page (page_info conn))
           (end_cursor (page_info conn)) (PROJECTS_EDGE_HAS_CURSOR a) (map cursor (edges conn))
           ''jira.projects'' = Inr (Some next_after)"
  { assume "next_after \<in> seen_after"
    then show "projects_loop (Suc fuel) c w parse a cloud page_size q after seen_after e
           = Some (Inl (SerializationError
                ''Pagination cursor repeated; aborting to prevent infinite loop''), e2)"
      by (simp only: projects_loop.simps h prod.case sum.case option.case if_True) }
  { assume "next_after \<notin> seen_after"
    then show "projects_loop (Suc fuel) c w parse a cloud page_size q after seen_after e
           = projects_loop fuel c w parse a cloud page_size q (Some next_after)
               (insert next_after seen_after) e2"
      by (simp only: projects_loop.simps h prod.case sum.case option.case if_False) }
next
  assume h: "teams_page_variables a cloud p page_size t_after = Inr vars"
    "execute c w parse (JIRA_PROJECT_OPSGENIE_TEAMS_PAGE_QUERY a) (Some vars)
           (Some ''JiraProjectOpsgenieTeamsPage'') (Some 1) te = (Inr t_result, te1)"
    "data t_result = Some td" "parse_project_opsgenie_teams a td = Inr t_conn"
    "next_after_from_pageinfo (PAGEINFO_HAS_END_CURSOR a) (has_next_page (page_info t_conn))
           (end_cursor (page_info t_conn)) (OPSGENIE_EDGE_HAS_CURSOR a)
           (map cursor (edges t_conn)) (teams_path p) = Inr (Some t_next)"
  { assume "t_next \<in> t_seen"
    then show "teams_loop (Suc fuel) c w parse a cloud p page_size t_after t_seen out te
           = Some (Inl (SerializationError ''Opsgenie pagination cursor repeated; aborting''), te1)"
      by (simp only: teams_loop.simps h prod.case sum.case option.case if_True Let_def) }
  { assume "t_next \<notin> t_seen"
    then show "teams_loop (Suc fuel) c w parse a cloud p page_size t_after t_seen out te
           = teams_loop fuel c w parse a cloud p page_size t_next (insert t_next t_seen)
               (out @ map node (edges t_conn)) te1"
      by (simp only: teams_loop.simps h prod.case sum.case option.case if_False Let_def) }
next
  assume "start_at \<in> seen_start_at"
  then show "rest_projects_loop (Suc fuel) c rw parse from_dict cloud types page_size start_at
          seen_start_at re
        = Some (Inl (SerializationError
             ''Pagination startAt repeated; aborting to prevent infinite loop''), re)"
    by (simp only: rest_projects_loop.simps if_True)
next
  assume "start_at \<in> seen_start_at"
  then show "rest_issues_loop (Suc fuel) c iw parse ifrom_dict map_issue jql fields_param page_size
          start_at seen_start_at ie
        = Some (Inl (SerializationError
             ''Pagination startAt repeated; aborting to prevent infinite loop''), ie)"
    by (simp only: rest_issues_loop.simps if_True)
qed

theorem repeated_value_aborts_witness:
  "projects_loop (Suc 8) (GraphQLClient 2 60 False) looping_world no_parse scenario_api
       ''cloud-123'' 50 ''query JiraProjectsPage'' None {} cursor_env
     = projects_loop 8 (GraphQLClient 2 60 False) looping_world no_parse scenario_api
         ''cloud-123'' 50 ''query JiraProjectsPage'' (Some ''P1'') {''P1''} looped_once
   \<and> projects_loop (Suc 7) (GraphQLClient 2 60 False) looping_world no_parse scenario_api
       ''cloud-123'' 50 ''query JiraProjectsPage'' (Some ''P1'') {''P1''} looped_once
     = Some (Inl (SerializationError
               ''Pagination cursor repeated; aborting to prevent infinite loop''), looped_twice)
   \<and> teams_loop (Suc 8) (GraphQLClient 2 60 False) looping_teams_world no_parse scenario_api
       ''cloud-123'' project_node_A 50 ''TA1'' {''TA1''} [] cursor_env
     = Some (Inl (SerializationError ''Opsgenie pagination cursor repeated; aborting''),
             teams_looped)
   \<and> rest_projects_loop (Suc 3) (GraphQLClient 2 60 False) search_world no_parse Inr ''cloud-123''
       {''SOFTWARE''} 2 2 {0, 2} rest_env
     = Some (Inl (SerializationError
               ''Pagination startAt repeated; aborting to prevent infinite loop''), rest_env)"
proof -
  have x1: "execute (GraphQLClient 2 60 False) looping_world no_parse ''query JiraProjectsPage''
        (Some (ProjectsPage ''cloud-123'' 50 None 50)) (Some ''JiraProjectsPage'') (Some 1) cursor_env
      = (Inr \<lparr>data = Some (ProjectsData looping_page), errors = None, extensions = None\<rparr>,
         looped_once)"
    by code_simp
  have x2: "execute (GraphQLClient 2 60 False) looping_world no_parse ''query JiraProjectsPage''
        (Some (ProjectsPage ''cloud-123'' 50 (Some ''P1'') 50)) (Some ''JiraProjectsPage'') (Some 1)
        looped_once
      = (Inr \<lparr>data = Some (ProjectsData looping_page), errors = None, extensions = None\<rparr>,
         looped_twice)"
    by code_simp
  have p: "parse_jira_projects_page scenario_api (ProjectsData looping_page) = Inr looping_page"
    "edges looping_page = []"
    "next_after_from_pageinfo (PAGEINFO_HAS_END_CURSOR scenario_api)
       (has_next_page (page_info looping_page)) (end_cursor (page_info looping_page))
       (PROJECTS_EDGE_HAS_CURSOR scenario_api) (map cursor (edges looping_page)) ''jira.projects''
     = Inr (Some ''P1'')"
    by (simp add: scenario_api_def, simp add: looping_page_def, code_simp)
  have y: "yield_edges k (GraphQLClient 2 60 False) looping_world no_parse scenario_api
             ''cloud-123'' 50 (edges looping_page) e = Some (Inr (), e)" for k e
    by (simp add: p(2))
  have a: "projects_loop (Suc 8) (GraphQLClient 2 60 False) looping_world no_parse scenario_api
       ''cloud-123'' 50 ''query JiraProjectsPage'' None {} cursor_env
     = projects_loop 8 (GraphQLClient 2 60 False) looping_world no_parse scenario_api
         ''cloud-123'' 50 ''query JiraProjectsPage'' (Some ''P1'') {''P1''} looped_once"
    using repeated_value_aborts [where c = "GraphQLClient 2 60 False" and w = looping_world
        and parse = no_parse and q = "''query JiraProjectsPage''" and cloud = "''cloud-123''"
        and page_size = 50 and after = None and e = cursor_env and ?e1.0 = looped_once
        and result = "\<lparr>data = Some (ProjectsData looping_page), errors = None, extensions = None\<rparr>"
        and d = "ProjectsData looping_page" and a = scenario_api and conn = looping_page
        and fuel = 8 and ?e2.0 = looped_once and next_after = "''P1''" and seen_after = "{}",
        THEN conjunct1] x1 p(1,3) y [of "Suc 8" looped_once]
    by simp
  have b: "projects_loop (Suc 7) (GraphQLClient 2 60 False) looping_world no_parse scenario_api
       ''cloud-123'' 50 ''query JiraProjectsPage'' (Some ''P1'') {''P1''} looped_once
     = Some (Inl (SerializationError
               ''Pagination cursor repeated; aborting to prevent infinite loop''), looped_twice)"
    using repeated_value_aborts [where c = "GraphQLClient 2 60 False" and w = looping_world
        and parse = no_parse and q = "''query JiraProjectsPage''" and cloud = "''cloud-123''"
        and page_size = 50 and after = "Some ''P1''" and e = looped_once and ?e1.0 = looped_twice
        and result = "\<lparr>data = Some (ProjectsData looping_page), errors = None, extensions = None\<rparr>"
        and d = "ProjectsData looping_page" and a = scenario_api and conn = looping_page
        and fuel = 7 and ?e2.0 = looped_twice and next_after = "''P1''" and seen_after = "{''P1''}",
        THEN conjunct1] x2 p(1,3) y [of "Suc 7" looped_twice]
    by simp
  have t: "teams_page_variables scenario_api ''cloud-123'' project_node_A 50 ''TA1''
             = Inr (TeamsPageOfNode ''projA'' 50 ''TA1'')"
    "execute (GraphQLClient 2 60 False) looping_teams_world no_parse
        (JIRA_PROJECT_OPSGENIE_TEAMS_PAGE_QUERY scenario_api)
        (Some (TeamsPageOfNode ''projA'' 50 ''TA1'')) (Some ''JiraProjectOpsgenieTeamsPage'') (Some 1)
        cursor_env
      = (Inr \<lparr>data = Some (TeamsData looping_teams), errors = None, extensions = None\<rparr>,
         teams_looped)"
    "parse_project_opsgenie_teams scenario_api (TeamsData looping_teams) = Inr looping_teams"
    "next_after_from_pageinfo (PAGEINFO_HAS_END_CURSOR scenario_api)
       (has_next_page (page_info looping_teams)) (end_cursor (page_info looping_teams))
       (OPSGENIE_EDGE_HAS_CURSOR scenario_api) (map cursor (edges looping_teams))
       (teams_path project_node_A)
     = Inr (Some ''TA1'')"
    by (code_simp, code_simp, simp add: scenario_api_def, code_simp)
  have c: "teams_loop (Suc 8) (GraphQLClient 2 60 False) looping_teams_world no_parse scenario_api
       ''cloud-123'' project_node_A 50 ''TA1'' {''TA1''} [] cursor_env
     = Some (Inl (SerializationError ''Opsgenie pagination cursor repeated; aborting''),
             teams_looped)"
    using repeated_value_aborts [where c = "GraphQLClient 2 60 False" and w = looping_teams_world
        and parse = no_parse and cloud = "''cloud-123''" and page_size = 50
        and a = scenario_api and p = project_node_A and t_after = "''TA1''"
        and vars = "TeamsPageOfNode ''projA'' 50 ''TA1''" and te = cursor_env
        and ?te1.0 = teams_looped
        and t_result = "\<lparr>data = Some (TeamsData looping_teams), errors = None, extensions = None\<rparr>"
        and td = "TeamsData looping_teams" and t_conn = looping_teams and t_next = "''TA1''"
        and t_seen = "{''TA1''}" and fuel = 8 and out = "[]",
        THEN conjunct2, THEN conjunct1] t
    by simp
  have d: "rest_projects_loop (Suc 3) (GraphQLClient 2 60 False) search_world no_parse Inr ''cloud-123''
       {''SOFTWARE''} 2 2 {0, 2} rest_env
     = Some (Inl (SerializationError
               ''Pagination startAt repeated; aborting to prevent infinite loop''), rest_env)"
    using repeated_value_aborts [where start_at = 2 and seen_start_at = "{0, 2}" and fuel = 3
        and c = "GraphQLClient 2 60 False" and rw = search_world and parse = no_parse
        and from_dict = Inr and cloud = "''cloud-123''" and types = "{''SOFTWARE''}"
        and page_size = 2 and re = rest_env,
        THEN conjunct2, THEN conjunct2, THEN conjunct1]
    by simp
  from a b c d show ?thesis by (intro conjI)
qed

text \<open>
  C5. In the two-level cursor pagination: for an outer edge whose nested connection reports
  a next page, the nested connection is paged by \<^verbatim>\<open>_paginate_opsgenie_teams\<close> first, and the
  parent's record, composed of the teams of the embedded page followed by the drained
  ones, is yielded in the state that the drain ends in, before the remaining edges are
  looked at. The drain is a loop of its own that starts with a seen-set holding only the
  first cursor of that parent; it appends the nodes of every page it fetches in the order
  of fetching, and ends normally only at a page that reports no next page. The records of
  one outer page are yielded in the order of its edges, and the next outer page is
  requested only in the state reached after all of them.
\<close>

theorem nested_drain_before_yield:
  "(has_next_page (page_info (opsgenie_teams (node ed)))
      \<and> paginate_opsgenie_teams fuel c w parse a cloud (node ed) (opsgenie_teams (node ed))
           page_size e = Some (Inr extra, e1)
      \<and> map_project_with_opsgenie_teams cloud (node ed)
           (map node (edges (opsgenie_teams (node ed))) @ extra) = Inr r
    \<longrightarrow> yield_edges fuel c w parse a cloud page_size (ed # rest) e
          = yield_edges fuel c w parse a cloud page_size rest (emit (Yielded r) e1))
   \<and> (next_after_from_pageinfo (PAGEINFO_HAS_END_CURSOR a)
          (has_next_page (page_info initial)) (end_cursor (page_info initial))
          (OPSGENIE_EDGE_HAS_CURSOR a) (map cursor (edges initial)) (teams_path p)
        = Inr (Some after)
    \<longrightarrow> paginate_opsgenie_teams fuel c w parse a cloud p initial page_size e
          = teams_loop fuel c w parse a cloud p page_size after {after} [] e)
   \<and> (teams_page_variables a cloud p page_size after = Inr vars
      \<and> execute c w parse (JIRA_PROJECT_OPSGENIE_TEAMS_PAGE_QUERY a) (Some vars)
           (Some ''JiraProjectOpsgenieTeamsPage'') (Some 1) e = (Inr result, e1)
      \<and> data result = Some d \<and> parse_project_opsgenie_teams a d = Inr conn
    \<longrightarrow>
      (\<not> has_next_page (page_info conn)
        \<longrightarrow> teams_loop (Suc fuel) c w parse a cloud p page_size after seen out e
              = Some (Inr (out @ map node (edges conn)), e1))
    \<and> (next_after_from_pageinfo (PAGEINFO_HAS_END_CURSOR a) (has_next_page (page_info conn))
           (end_cursor (page_info conn)) (OPSGENIE_EDGE_HAS_CURSOR a)
           (map cursor (edges conn)) (teams_path p) = Inr (Some nxt) \<and> nxt \<notin> seen
        \<longrightarrow> teams_loop (Suc fuel) c w parse a cloud p page_size after seen out e
              = teams_loop fuel c w parse a cloud p page_size nxt (insert nxt seen)
                  (out @ map node (edges conn)) e1))
   \<and> (yield_edges fuel c w parse a cloud page_size es e = Some (Inr (), e')
    \<longrightarrow> (\<exists>evs. trace e' = trace e @ evs
           \<and> list_all2 (\<lambda>ed r. \<exists>extra.
                 map_project_with_opsgenie_teams cloud (node ed)
                   (map node (edges (opsgenie_teams (node ed))) @ extra) = Inr r)
               es (yielded evs)))
   \<and> (execute c w parse q (Some (ProjectsPage cloud page_size o_after page_size))
        (Some ''JiraProjectsPage'') (Some 1) e = (Inr o_result, e1)
      \<and> data o_result = Some od \<and> parse_jira_projects_page a od = Inr o_conn
      \<and> yield_edges (Suc fuel) c w parse a cloud page_size (edges o_conn) e1 = Some (Inr (), e2)
      \<and> next_after_from_pageinfo (PAGEINFO_HAS_END_CURSOR a) (has_next_page (page_info o_conn))
           (end_cursor (page_info o_conn)) (PROJECTS_EDGE_HAS_CURSOR a)
           (map cursor (edges o_conn)) ''jira.projects'' = Inr (Some o_next)
      \<and> o_next \<notin> o_seen
    \<longrightarrow> projects_loop (Suc fuel) c w parse a cloud page_size q o_after o_seen e
          = projects_loop fuel c w parse a cloud page_size q (Some o_next)
              (insert o_next o_seen) e2)"
proof (intro conjI impI; (elim conjE)?)
  assume h: "has_next_page (page_info (opsgenie_teams (node ed)))"
    "paginate_opsgenie_teams fuel c w parse a cloud (node ed) (opsgenie_teams (node ed))
           page_size e = Some (Inr extra, e1)"
    "map_project_with_opsgenie_teams cloud (node ed)
           (map node (edges (opsgenie_teams (node ed))) @ extra) = Inr r"
  show "yield_edges fuel c w parse a cloud page_size (ed # rest) e
          = yield_edges fuel c w parse a cloud page_size rest (emit (Yielded r) e1)"
    by (simp only: yield_edges.simps Let_def h if_True option.case prod.case sum.case)
next
  assume "next_after_from_pageinfo (PAGEINFO_HAS_END_CURSOR a)
          (has_next_page (page_info initial)) (end_cursor (page_info initial))
          (OPSGENIE_EDGE_HAS_CURSOR a) (map cursor (edges initial)) (teams_path p)
        = Inr (Some after)"
  then show "paginate_opsgenie_teams fuel c w parse a cloud p initial page_size e
          = teams_loop fuel c w parse a cloud p page_size after {after} [] e"
    by (simp add: paginate_opsgenie_teams_def)
next
  assume h: "teams_page_variables a cloud p page_size after = Inr vars"
    "execute c w parse (JIRA_PROJECT_OPSGENIE_TEAMS_PAGE_QUERY a) (Some vars)
           (Some ''JiraProjectOpsgenieTeamsPage'') (Some 1) e = (Inr result, e1)"
    "data result = Some d" "parse_project_opsgenie_teams a d = Inr conn"
  { assume n: "\<not> has_next_page (page_info conn)"
    have "next_after_from_pageinfo (PAGEINFO_HAS_END_CURSOR a) (has_next_page (page_info conn))
           (end_cursor (page_info conn)) (OPSGENIE_EDGE_HAS_CURSOR a)
           (map cursor (edges conn)) (teams_path p) = Inr None"
      using n by (simp add: next_after_from_pageinfo_def)
    then show "teams_loop (Suc fuel) c w parse a cloud p page_size after seen out e
              = Some (Inr (out @ map node (edges conn)), e1)"
      by (simp only: teams_loop.simps h prod.case sum.case option.case Let_def) }
  { assume n: "next_after_from_pageinfo (PAGEINFO_HAS_END_CURSOR a) (has_next_page (page_info conn))
           (end_cursor (page_info conn)) (OPSGENIE_EDGE_HAS_CURSOR a)
           (map cursor (edges conn)) (teams_path p) = Inr (Some nxt)" "nxt \<notin> seen"
    show "teams_loop (Suc fuel) c w parse a cloud p page_size after seen out e
              = teams_loop fuel c w parse a cloud p page_size nxt (insert nxt seen)
                  (out @ map node (edges conn)) e1"
      by (simp only: teams_loop.simps h n prod.case sum.case option.case Let_def if_False) }
next
  assume "yield_edges fuel c w parse a cloud page_size es e = Some (Inr (), e')"
  from yield_edges_order [OF this]
  show "\<exists>evs. trace e' = trace e @ evs
           \<and> list_all2 (\<lambda>ed r. \<exists>extra.
                 map_project_with_opsgenie_teams cloud (node ed)
                   (map node (edges (opsgenie_teams (node ed))) @ extra) = Inr r)
               es (yielded evs)" .
next
  assume h: "execute c w parse q (Some (ProjectsPage cloud page_size o_after page_size))
        (Some ''JiraProjectsPage'') (Some 1) e = (Inr o_result, e1)"
    "data o_result = Some od" "parse_jira_projects_page a od = Inr o_conn"
    "yield_edges (Suc fuel) c w parse a cloud page_size (edges o_conn) e1 = Some (Inr (), e2)"
    "next_after_from_pageinfo (PAGEINFO_HAS_END_CURSOR a) (has_next_page (page_info o_conn))
           (end_cursor (page_info o_conn)) (PROJECTS_EDGE_HAS_CURSOR a)
           (map cursor (edges o_conn)) ''jira.projects'' = Inr (Some o_next)"
    "o_next \<notin> o_seen"
  show "projects_loop (Suc fuel) c w parse a cloud page_size q o_after o_seen e
          = projects_loop fuel c w parse a cloud page_size q (Some o_next)
              (insert o_next o_seen) e2"
    by (simp only: projects_loop.simps h prod.case sum.case option.case if_False)
qed

theorem nested_drain_before_yield_witness:
  "yield_edges 9 (GraphQLClient 2 60 False) nested_world no_parse scenario_api ''cloud-123'' 50
       [Edge (Some ''pc1'') node_A, Edge (Some ''pc2'') node_B] after_outer_1
     = yield_edges 9 (GraphQLClient 2 60 False) nested_world no_parse scenario_api ''cloud-123'' 50
         [Edge (Some ''pc2'') node_B] (emit (Yielded record_A) after_nested)
   \<and> projects_loop (Suc 8) (GraphQLClient 2 60 False) nested_world no_parse scenario_api
        ''cloud-123'' 50 ''query JiraProjectsPage'' None {} cursor_env
     = projects_loop 8 (GraphQLClient 2 60 False) nested_world no_parse scenario_api
         ''cloud-123'' 50 ''query JiraProjectsPage'' (Some ''P1'') {''P1''} after_page_1
   \<and> iter_projects_with_opsgenie_linkable_teams 9 (GraphQLClient 2 60 False) nested_world no_parse
        scenario_api ''cloud-123'' [''SOFTWARE''] 50 cursor_env = Some (Inr (), after_page_2)
   \<and> yielded (trace after_page_2) = [record_A, record_B, record_C]
   \<and> requests (trace after_page_2)
       = [projects_request None, teams_request ''projA'' ''TA1'', projects_request (Some ''P1'')]"
proof -
  have n: "node (Edge (Some ''pc1'') node_A) = node_A" by simp
  have h1: "has_next_page (page_info (opsgenie_teams node_A))"
    "paginate_opsgenie_teams 9 (GraphQLClient 2 60 False) nested_world no_parse scenario_api
       ''cloud-123'' node_A (opsgenie_teams node_A) 50 after_outer_1
     = Some (Inr [OpsgenieTeamNode ''t3'' ''Team 3''], after_nested)"
    "map_project_with_opsgenie_teams ''cloud-123'' node_A
       (map node (edges (opsgenie_teams node_A)) @ [OpsgenieTeamNode ''t3'' ''Team 3''])
     = Inr record_A"
    by (simp add: node_A_def, code_simp, code_simp)
  have a: "yield_edges 9 (GraphQLClient 2 60 False) nested_world no_parse scenario_api ''cloud-123'' 50
       [Edge (Some ''pc1'') node_A, Edge (Some ''pc2'') node_B] after_outer_1
     = yield_edges 9 (GraphQLClient 2 60 False) nested_world no_parse scenario_api ''cloud-123'' 50
         [Edge (Some ''pc2'') node_B] (emit (Yielded record_A) after_nested)"
    using nested_drain_before_yield [where ed = "Edge (Some ''pc1'') node_A" and fuel = 9
        and c = "GraphQLClient 2 60 False" and w = nested_world and parse = no_parse
        and a = scenario_api and cloud = "''cloud-123''" and page_size = 50
        and e = after_outer_1 and extra = "[OpsgenieTeamNode ''t3'' ''Team 3'']"
        and ?e1.0 = after_nested and r = record_A and rest = "[Edge (Some ''pc2'') node_B]",
        THEN conjunct1] h1
    by (simp only: n simp_thms)
  have h2: "execute (GraphQLClient 2 60 False) nested_world no_parse ''query JiraProjectsPage''
        (Some (ProjectsPage ''cloud-123'' 50 None 50)) (Some ''JiraProjectsPage'') (Some 1) cursor_env
      = (Inr \<lparr>data = Some (ProjectsData outer_page_1), errors = None, extensions = None\<rparr>,
         after_outer_1)"
    "data \<lparr>data = Some (ProjectsData outer_page_1), errors = None, extensions = None\<rparr>
      = Some (ProjectsData outer_page_1)"
    "parse_jira_projects_page scenario_api (ProjectsData outer_page_1) = Inr outer_page_1"
    "yield_edges (Suc 8) (GraphQLClient 2 60 False) nested_world no_parse scenario_api
       ''cloud-123'' 50 (edges outer_page_1) after_outer_1 = Some (Inr (), after_page_1)"
    "next_after_from_pageinfo (PAGEINFO_HAS_END_CURSOR scenario_api)
       (has_next_page (page_info outer_page_1)) (end_cursor (page_info outer_page_1))
       (PROJECTS_EDGE_HAS_CURSOR scenario_api) (map cursor (edges outer_page_1)) ''jira.projects''
     = Inr (Some ''P1'')"
    "''P1'' \<notin> ({} :: string set)"
    by (code_simp, simp, simp add: scenario_api_def, code_simp, code_simp, simp)
  have b: "projects_loop (Suc 8) (GraphQLClient 2 60 False) nested_world no_parse scenario_api
        ''cloud-123'' 50 ''query JiraProjectsPage'' None {} cursor_env
     = projects_loop 8 (GraphQLClient 2 60 False) nested_world no_parse scenario_api
         ''cloud-123'' 50 ''query JiraProjectsPage'' (Some ''P1'') {''P1''} after_page_1"
    using nested_drain_before_yield [where c = "GraphQLClient 2 60 False" and w = nested_world
        and parse = no_parse and q = "''query JiraProjectsPage''" and cloud = "''cloud-123''"
        and page_size = 50 and o_after = None and e = cursor_env and ?e1.0 = after_outer_1
        and o_result = "\<lparr>data = Some (ProjectsData outer_page_1), errors = None, extensions = None\<rparr>"
        and od = "ProjectsData outer_page_1" and a = scenario_api and o_conn = outer_page_1
        and fuel = 8 and ?e2.0 = after_page_1 and o_next = "''P1''" and o_seen = "{}",
        THEN conjunct2, THEN conjunct2, THEN conjunct2, THEN conjunct2] h2
    by (simp only: simp_thms)
  have y: "yielded (trace after_page_2) = [record_A, record_B, record_C]"
    "requests (trace after_page_2)
       = [projects_request None, teams_request ''projA'' ''TA1'', projects_request (Some ''P1'')]"
    by (simp_all add: after_page_2_def)
  from a b nested_run y show ?thesis by (intro conjI)
qed

end


